theory Spec2Isabelle
  imports Complex_Main "HOL-Library.Sublist"
begin

section \<open>Quiz attempt lifecycle, grading and analytics of SchoolConnect\<close>

text \<open>
  The development embeds the route handlers \<open>POST /quizzes/[id]/attempt\<close> (start or resume
  an attempt), \<open>POST\<close> and \<open>PATCH /quiz-attempts/[id]/submit\<close> (grade an attempt, save its
  progress) and \<open>DELETE /quizzes/[id]\<close>, with the schemas, hooks and statics of \<open>Quiz.ts\<close>
  and \<open>QuizAttempt.ts\<close> that they run.

  Conventions of the embedding:
  \<^item> a JavaScript number is an exact number: \<open>int\<close> where the code handles points, scores,
    counts, minutes and percentages (points and minutes are whole numbers), \<open>rat\<close> where it
    divides; IEEE rounding of doubles is not modelled;
  \<^item> a JavaScript string is a \<open>string\<close> over ASCII characters;
  \<^item> \<open>new Date()\<close> is the parameter \<open>now\<close> of a handler, an instant counted as an integer;
  \<^item> an ObjectId is a natural number;
  \<^item> the document store is a record of the collections of users, quizzes and attempts, with
    the lines written to the console, that the handlers take and return; requests are served
    one at a time;
  \<^item> a document keeps the fields that the embedded code reads or assigns (a quiz has no
    title, a question no options, an attempt no feedback);
  \<^item> a thrown exception is a value of type \<open>exn\<close>; the \<open>catch\<close> block of a handler turns it
    into the 401 or 500 response and a console line. The exceptions are the ones the code
    and the schemas raise on the data at hand (a rejected token, a failed validator, a
    duplicate key, a property read on \<open>null\<close>) and, for the analytics update, a store call
    that is rejected.
\<close>

subsection \<open>JavaScript values and string primitives\<close>

text \<open>The values a JSON body can put into \<open>answer\<close> and a schema can store in \<open>correctAnswer\<close>
  (\<open>string | number | boolean\<close>), with \<open>undefined\<close> for an omitted field and \<open>null\<close>. A number
  is a whole number, as an option index is.\<close>

datatype jsval = JUndefined | JNull | JBool bool | JNum int | JStr string

text \<open>\<open>a === b\<close> on these values: same type and same value, which is equality of the datatype.\<close>

definition strict_eq :: "jsval \<Rightarrow> jsval \<Rightarrow> bool" where
  "strict_eq a b = (a = b)"

definition digit_char :: "nat \<Rightarrow> char" where
  "digit_char d = char_of (48 + d)"

fun nat_digits :: "nat \<Rightarrow> string" where
  "nat_digits n = (if n < 10 then [digit_char n] else nat_digits (n div 10) @ [digit_char (n mod 10)])"

declare nat_digits.simps [simp del]

text \<open>\<open>String(v)\<close>.\<close>

fun js_String :: "jsval \<Rightarrow> string" where
  "js_String JUndefined = ''undefined''"
| "js_String JNull = ''null''"
| "js_String (JBool b) = (if b then ''true'' else ''false'')"
| "js_String (JNum n) = (if n < 0 then CHR ''-'' # nat_digits (nat (- n)) else nat_digits (nat n))"
| "js_String (JStr s) = s"

text \<open>\<open>String.prototype.trim\<close>: TAB, LF, VT, FF, CR and SPACE are the ASCII white space.\<close>

definition is_space :: "char \<Rightarrow> bool" where
  "is_space c = (c \<in> set [CHR 0x09, CHR 0x0A, CHR 0x0B, CHR 0x0C, CHR 0x0D, CHR 0x20])"

definition trim :: "string \<Rightarrow> string" where
  "trim s = rev (dropWhile is_space (rev (dropWhile is_space s)))"

text \<open>\<open>String.prototype.toLowerCase\<close> on ASCII.\<close>

definition lower_char :: "char \<Rightarrow> char" where
  "lower_char c = (let n = (of_char c :: nat) in if 65 \<le> n \<and> n \<le> 90 then char_of (n + 32) else c)"

definition toLowerCase :: "string \<Rightarrow> string" where
  "toLowerCase s = map lower_char s"

text \<open>\<open>s.startsWith(t)\<close> and \<open>s.includes(t)\<close>, by scanning \<open>s\<close> from the left.\<close>

fun startsWith :: "string \<Rightarrow> string \<Rightarrow> bool" where
  "startsWith s [] = True"
| "startsWith [] (d # t) = False"
| "startsWith (c # s) (d # t) = (c = d \<and> startsWith s t)"

fun str_includes :: "string \<Rightarrow> string \<Rightarrow> bool" where
  "str_includes [] t = (t = [])"
| "str_includes (c # s) t = (startsWith (c # s) t \<or> str_includes s t)"

subsection \<open>Documents\<close>

type_synonym oid = nat
type_synonym date = int

datatype UserRole = Teacher | Student | Parent

record user =
  role :: UserRole

datatype QuestionType = Multiple_choice | True_false | Short_answer

record question =
  qid :: string
  qtype :: QuestionType
  correctAnswer :: jsval
  points :: int

datatype QuizStatus = Draft | Published | Archived

record analytics =
  totalAttempts :: int
  averageScore :: rat
  completionRate :: rat
  averageTimeMinutes :: rat

record quiz =
  author :: oid
  questions :: "question list"
  quiz_status :: QuizStatus
  maxAttempts :: int
  passingScore :: "int option"
  totalPoints :: int
  publishedAt :: "date option"
  dueDate :: "date option"
  quiz_analytics :: analytics

datatype AttemptStatus = In_progress | Completed | Abandoned | Time_expired

text \<open>An element of the \<open>responses\<close> array of a request body, and the stored
  \<open>IQuestionResponse\<close> that extends it.\<close>

record submitted_response =
  questionId :: string
  answer :: jsval
  timeSpentSeconds :: "int option"

record question_response = submitted_response +
  isCorrect :: bool
  pointsEarned :: int
  attempts_made :: int

record attempt =
  attempt_id :: oid
  quiz :: oid
  student :: oid
  attemptNumber :: int
  status :: AttemptStatus
  responses :: "question_response list"
  score :: int
  maxScore :: int
  percentage :: int
  timeSpentMinutes :: int
  startedAt :: date
  completedAt :: "date option"
  submittedAt :: "date option"
  ipAddress :: string
  userAgent :: string

record db =
  users :: "oid \<rightharpoonup> user"
  quizzes :: "oid \<rightharpoonup> quiz"
  attempts :: "attempt list"
  console :: "string list"

subsection \<open>The response grader\<close>

text \<open>The body of the \<open>switch (question.type)\<close> of the submit handler.\<close>

definition short_answer_correct :: "jsval \<Rightarrow> jsval \<Rightarrow> bool" where
  "short_answer_correct given expected =
     (let studentAnswer = toLowerCase (trim (js_String given));
          correctAnswer' = toLowerCase (trim (js_String expected))
      in studentAnswer = correctAnswer' \<or> str_includes studentAnswer correctAnswer'
           \<or> str_includes correctAnswer' studentAnswer)"

fun check_correct :: "QuestionType \<Rightarrow> jsval \<Rightarrow> jsval \<Rightarrow> bool" where
  "check_correct Multiple_choice given expected = strict_eq given expected"
| "check_correct True_false given expected = strict_eq given expected"
| "check_correct Short_answer given expected = short_answer_correct given expected"

text \<open>The callback of \<open>responses.map\<close>: one graded response for one submitted response.\<close>

definition grade_response :: "question list \<Rightarrow> submitted_response \<Rightarrow> question_response" where
  "grade_response qs response =
     (case find (\<lambda>q. qid q = questionId response) qs of
        None \<Rightarrow>
          \<lparr> questionId = questionId response, answer = answer response,
            timeSpentSeconds = timeSpentSeconds response,
            isCorrect = False, pointsEarned = 0, attempts_made = 1 \<rparr>
      | Some q \<Rightarrow>
          (let correct = check_correct (qtype q) (answer response) (correctAnswer q)
           in \<lparr> questionId = questionId response, answer = answer response,
                timeSpentSeconds = Some (case timeSpentSeconds response of None \<Rightarrow> 0 | Some t \<Rightarrow> t),
                isCorrect = correct, pointsEarned = (if correct then points q else 0),
                attempts_made = 1 \<rparr>))"


subsection \<open>Numbers\<close>

text \<open>\<open>Math.round\<close>: the nearest integer, a half rounded towards plus infinity.\<close>

definition js_round :: "rat \<Rightarrow> int" where
  "js_round x = \<lfloor>x + 1 / 2\<rfloor>"

subsection \<open>QuizAttempt: schema validators, pre-save hook, save\<close>

datatype exn = InvalidToken | ValidationError | DuplicateKey | TypeError | StoreError

text \<open>The validators that \<open>QuestionResponseSchema\<close> and \<open>QuizAttemptSchema\<close> declare:
  \<open>required\<close> (a non-empty string for a String path, neither \<open>undefined\<close> nor \<open>null\<close> for
  the Mixed path \<open>answer\<close>), \<open>min\<close> and \<open>max\<close>.\<close>

definition validate_response :: "question_response \<Rightarrow> bool" where
  "validate_response r =
     (questionId r \<noteq> [] \<and> answer r \<noteq> JUndefined \<and> answer r \<noteq> JNull \<and> 0 \<le> pointsEarned r
      \<and> (case timeSpentSeconds r of None \<Rightarrow> False | Some t \<Rightarrow> 0 \<le> t) \<and> 1 \<le> attempts_made r)"

definition validate_attempt :: "attempt \<Rightarrow> bool" where
  "validate_attempt a =
     (1 \<le> attemptNumber a \<and> list_all validate_response (responses a) \<and> 0 \<le> score a
      \<and> 1 \<le> maxScore a \<and> 0 \<le> percentage a \<and> percentage a \<le> 100 \<and> 0 \<le> timeSpentMinutes a)"

text \<open>The \<open>maxlength\<close> validators of the two optional string paths that the start handler
  sets; the other handlers do not assign them.\<close>

definition validate_client_paths :: "attempt \<Rightarrow> bool" where
  "validate_client_paths a = (length (ipAddress a) \<le> 45 \<and> length (userAgent a) \<le> 500)"

text \<open>\<open>QuizAttemptSchema.pre('save')\<close>.\<close>

definition attempt_pre_save :: "date \<Rightarrow> attempt \<Rightarrow> attempt" where
  "attempt_pre_save now a =
     (let a1 = (if maxScore a > 0
                then a\<lparr>percentage := js_round (of_int (score a) / of_int (maxScore a) * 100)\<rparr>
                else a)
      in if status a1 = Completed \<and> completedAt a1 = None then a1\<lparr>completedAt := Some now\<rparr> else a1)"

text \<open>\<open>attempt.save()\<close>. Mongoose validates the document first (its validation is the first
  pre-save hook), then runs the schema's pre-save hook, then writes. A document made with
  \<open>new QuizAttempt\<close> is inserted, and the unique index on (student, quiz, attemptNumber)
  rejects a duplicate; a document that was read from the store replaces the stored one.
  The result is the document as the hook left it, and the store.\<close>

definition save_new_attempt :: "date \<Rightarrow> attempt \<Rightarrow> db \<Rightarrow> exn + (attempt \<times> db)" where
  "save_new_attempt now a d =
     (if \<not> (validate_attempt a \<and> validate_client_paths a) then Inl ValidationError
      else let a' = attempt_pre_save now a
           in if \<exists>x \<in> set (attempts d). student x = student a' \<and> quiz x = quiz a'
                    \<and> attemptNumber x = attemptNumber a'
              then Inl DuplicateKey
              else Inr (a', d\<lparr>attempts := attempts d @ [a']\<rparr>))"

definition save_attempt :: "date \<Rightarrow> attempt \<Rightarrow> db \<Rightarrow> exn + (attempt \<times> db)" where
  "save_attempt now a d =
     (if \<not> validate_attempt a then Inl ValidationError
      else let a' = attempt_pre_save now a
           in Inr (a', d\<lparr>attempts := map (\<lambda>x. if attempt_id x = attempt_id a then a' else x) (attempts d)\<rparr>))"

text \<open>\<open>new ObjectId()\<close> for an attempt: an identifier that no stored attempt has.\<close>

definition new_oid :: "attempt list \<Rightarrow> oid" where
  "new_oid as = fold (\<lambda>a m. max (Suc (attempt_id a)) m) as 0"

definition findById :: "oid \<Rightarrow> attempt list \<Rightarrow> attempt option" where
  "findById i as = find (\<lambda>a. attempt_id a = i) as"

text \<open>\<open>QuizAttemptSchema.statics.getStudentAttemptCount\<close>.\<close>

definition terminal :: "AttemptStatus \<Rightarrow> bool" where
  "terminal s = (s \<in> set [Completed, Abandoned, Time_expired])"

definition getStudentAttemptCount :: "oid \<Rightarrow> oid \<Rightarrow> db \<Rightarrow> int" where
  "getStudentAttemptCount studentId quizId d =
     int (length (filter (\<lambda>a. student a = studentId \<and> quiz a = quizId \<and> terminal (status a)) (attempts d)))"

subsection \<open>Quiz: pre-save hook, analytics\<close>

text \<open>\<open>QuizSchema.pre('save')\<close>; \<open>gen i\<close> is the string of the ObjectId that the hook would
  generate for the question at index \<open>i\<close>.\<close>

definition quiz_pre_save :: "date \<Rightarrow> (nat \<Rightarrow> string) \<Rightarrow> quiz \<Rightarrow> quiz" where
  "quiz_pre_save now gen q =
     (let q1 = q\<lparr>totalPoints := foldl (\<lambda>total qu. total + points qu) 0 (questions q)\<rparr>;
          q2 = (if quiz_status q1 = Published \<and> publishedAt q1 = None
                then q1\<lparr>publishedAt := Some now\<rparr> else q1)
      in q2\<lparr>questions := map (\<lambda>(i, qu). if qid qu = [] then qu\<lparr>qid := gen i\<rparr> else qu)
                              (enumerate 0 (questions q2))\<rparr>)"

text \<open>The arithmetic of \<open>QuizSchema.statics.updateAnalytics\<close> on the \<open>analytics\<close> block.\<close>

definition analytics_step :: "analytics \<Rightarrow> int \<Rightarrow> int \<Rightarrow> bool \<Rightarrow> analytics" where
  "analytics_step an score' timeMinutes completed' =
     (let newTotalAttempts = totalAttempts an + 1;
          newAverageScore = (averageScore an * of_int (totalAttempts an) + of_int score')
                              / of_int newTotalAttempts;
          newAverageTime = (averageTimeMinutes an * of_int (totalAttempts an) + of_int timeMinutes)
                              / of_int newTotalAttempts;
          completedAttempts = js_round (completionRate an * of_int (totalAttempts an) / 100)
                                + (if completed' then 1 else 0);
          newCompletionRate = of_int completedAttempts / of_int newTotalAttempts * 100
      in \<lparr> totalAttempts = newTotalAttempts,
           averageScore = of_int (js_round (newAverageScore * 100)) / 100,
           completionRate = of_int (js_round (newCompletionRate * 100)) / 100,
           averageTimeMinutes = of_int (js_round (newAverageTime * 100)) / 100 \<rparr>)"

text \<open>\<open>updateAnalytics\<close> reads the quiz and writes it back with two store calls and has no
  \<open>try\<close> of its own: when the store rejects one of them (\<open>store_fails\<close>), the rejection
  is thrown to the caller. A quiz that is not found is left alone.\<close>

definition updateAnalytics :: "bool \<Rightarrow> oid \<Rightarrow> int \<Rightarrow> int \<Rightarrow> bool \<Rightarrow> db \<Rightarrow> exn + db" where
  "updateAnalytics store_fails quizId score' timeMinutes completed' d =
     (if store_fails then Inl StoreError
      else case quizzes d quizId of
             None \<Rightarrow> Inr d
           | Some q \<Rightarrow>
               Inr (d\<lparr>quizzes := (quizzes d)(quizId \<mapsto>
                      q\<lparr>quiz_analytics := analytics_step (quiz_analytics q) score' timeMinutes completed'\<rparr>)\<rparr>))"



subsection \<open>Requests and responses\<close>

text \<open>What the token of a request amounts to: none sent, one that \<open>verifyToken\<close> rejects
  (it throws \<open>Invalid or expired token\<close>), or one that carries a user id.\<close>

datatype credential = NoToken | BadToken | Token oid

text \<open>What the start handler reads of the connection and the headers: \<open>request.ip\<close>, and
  the headers \<open>x-forwarded-for\<close> and \<open>user-agent\<close> (\<open>None\<close> when absent). \<open>a || b\<close> on a
  string that may be absent takes \<open>b\<close> when \<open>a\<close> is absent or empty.\<close>

record client_info =
  req_ip :: "string option"
  forwarded_for :: "string option"
  user_agent :: "string option"

definition js_or :: "string option \<Rightarrow> string \<Rightarrow> string" where
  "js_or v other = (case v of None \<Rightarrow> other | Some s \<Rightarrow> if s = [] then other else s)"

record graded_result =
  r_id :: oid
  r_score :: int
  r_maxScore :: int
  r_percentage :: int
  r_timeSpentMinutes :: int
  r_status :: AttemptStatus
  r_responses :: "question_response list"
  r_completedAt :: "date option"

datatype body =
    Error string
  | Started "attempt option"
  | Graded graded_result
  | Message string

type_synonym response = "nat \<times> body"

text \<open>The \<open>catch\<close> block shared by the handlers: a console line, then 401 for a rejected
  token and 500 with the handler's own message for anything else.\<close>

definition caught :: "string \<Rightarrow> string \<Rightarrow> exn \<Rightarrow> db \<Rightarrow> response \<times> db" where
  "caught label failure e d =
     ((if e = InvalidToken then (401, Error ''Invalid or expired token'') else (500, Error failure)),
      d\<lparr>console := console d @ [label]\<rparr>)"


subsection \<open>POST /quizzes/[id]/attempt: start or resume an attempt\<close>

definition start_POST :: "date \<Rightarrow> client_info \<Rightarrow> credential \<Rightarrow> oid \<Rightarrow> db \<Rightarrow> response \<times> db" where
  "start_POST now client cred quizId d =
     (case cred of
        NoToken \<Rightarrow> ((401, Error ''Authentication required''), d)
      | BadToken \<Rightarrow> caught ''Start quiz attempt error:'' ''Failed to start quiz attempt'' InvalidToken d
      | Token userId \<Rightarrow>
          (case users d userId of
             None \<Rightarrow> ((404, Error ''User not found''), d)
           | Some u \<Rightarrow>
               if role u \<noteq> Student then ((403, Error ''Only students can take quizzes''), d)
               else
                 (case quizzes d quizId of
                    None \<Rightarrow> ((404, Error ''Quiz not found''), d)
                  | Some q \<Rightarrow>
                      if quiz_status q \<noteq> Published then ((403, Error ''Quiz is not available''), d)
                      else if (case dueDate q of None \<Rightarrow> False | Some due \<Rightarrow> now > due)
                      then ((403, Error ''Quiz deadline has passed''), d)
                      else
                        let completedAttempts = getStudentAttemptCount userId quizId d
                        in if completedAttempts \<ge> maxAttempts q
                           then ((403, Error (''Maximum '' @ js_String (JNum (maxAttempts q))
                                                @ '' attempts reached'')), d)
                           else
                             (case find (\<lambda>a. student a = userId \<and> quiz a = quizId
                                               \<and> status a = In_progress) (attempts d) of
                                Some existingAttempt \<Rightarrow> ((200, Started (Some existingAttempt)), d)
                              | None \<Rightarrow>
                                  let a = \<lparr> attempt_id = new_oid (attempts d), quiz = quizId,
                                            student = userId, attemptNumber = completedAttempts + 1,
                                            status = In_progress, responses = [], score = 0,
                                            maxScore = totalPoints q, percentage = 0,
                                            timeSpentMinutes = 0, startedAt = now,
                                            completedAt = None, submittedAt = None,
                                            ipAddress = js_or (req_ip client)
                                                          (js_or (forwarded_for client) ''unknown''),
                                            userAgent = js_or (user_agent client) ''unknown'' \<rparr>
                                  in (case save_new_attempt now a d of
                                        Inl e \<Rightarrow> caught ''Start quiz attempt error:''
                                                   ''Failed to start quiz attempt'' e d
                                      | Inr (saved, d') \<Rightarrow>
                                          ((201, Started (findById (attempt_id saved) (attempts d'))), d'))))))"

subsection \<open>POST /quiz-attempts/[id]/submit: grade and finish an attempt\<close>

text \<open>The request body. Its field \<open>responses\<close> is falsy (absent, \<open>null\<close>, ...), a truthy value
  that is not an array, or an array of response objects.\<close>

datatype responses_field = Falsy | NotArray | Array "submitted_response list"

record submit_body =
  body_responses :: responses_field
  body_timeSpentMinutes :: "int option"

text \<open>\<open>totalScore\<close> is accumulated inside the \<open>map\<close> callback by the branch that found the
  question; the other branch earns 0, so the total is the sum of \<open>pointsEarned\<close>.
  \<open>store_fails\<close> says whether the store rejects a call of \<open>updateAnalytics\<close>.\<close>

definition submit_POST :: "date \<Rightarrow> bool \<Rightarrow> credential \<Rightarrow> oid \<Rightarrow> submit_body \<Rightarrow> db \<Rightarrow> response \<times> db" where
  "submit_POST now store_fails cred attemptId reqBody d =
     (case cred of
        NoToken \<Rightarrow> ((401, Error ''Authentication required''), d)
      | BadToken \<Rightarrow> caught ''Submit quiz attempt error:'' ''Failed to submit quiz attempt'' InvalidToken d
      | Token userId \<Rightarrow>
          (case users d userId of
             None \<Rightarrow> ((404, Error ''User not found''), d)
           | Some u \<Rightarrow>
               if role u \<noteq> Student then ((403, Error ''Only students can submit quiz attempts''), d)
               else
                 (case findById attemptId (attempts d) of
                    None \<Rightarrow> ((404, Error ''Quiz attempt not found''), d)
                  | Some a \<Rightarrow>
                      if student a \<noteq> userId then ((403, Error ''Access denied''), d)
                      else if status a \<noteq> In_progress
                      then ((400, Error ''Quiz attempt is not in progress''), d)
                      else
                        (case body_responses reqBody of
                           Falsy \<Rightarrow> ((400, Error ''Responses are required''), d)
                         | NotArray \<Rightarrow> ((400, Error ''Responses are required''), d)
                         | Array rs \<Rightarrow>
                             (case quizzes d (quiz a) of
                                None \<Rightarrow> caught ''Submit quiz attempt error:''
                                          ''Failed to submit quiz attempt'' TypeError d
                              | Some q \<Rightarrow>
                                  let gradedResponses = map (grade_response (questions q)) rs;
                                      totalScore = sum_list (map pointsEarned gradedResponses);
                                      percentage' =
                                        (if totalPoints q > 0
                                         then js_round (of_int totalScore / of_int (totalPoints q) * 100)
                                         else 0);
                                      minutes = (case body_timeSpentMinutes reqBody of
                                                   None \<Rightarrow> 0 | Some t \<Rightarrow> t);
                                      a' = a\<lparr> responses := gradedResponses, score := totalScore,
                                             percentage := percentage', timeSpentMinutes := minutes,
                                             status := Completed, completedAt := Some now,
                                             submittedAt := Some now \<rparr>
                                  in (case save_attempt now a' d of
                                        Inl e \<Rightarrow> caught ''Submit quiz attempt error:''
                                                   ''Failed to submit quiz attempt'' e d
                                      | Inr (saved, d1) \<Rightarrow>
                                          (case updateAnalytics store_fails (quiz a) percentage' minutes True d1 of
                                             Inl e \<Rightarrow> caught ''Submit quiz attempt error:''
                                                        ''Failed to submit quiz attempt'' e d1
                                           | Inr d2 \<Rightarrow>
                                               ((200, Graded
                                                   \<lparr> r_id = attempt_id saved, r_score = score saved,
                                                     r_maxScore = maxScore saved,
                                                     r_percentage = percentage saved,
                                                     r_timeSpentMinutes = timeSpentMinutes saved,
                                                     r_status = status saved,
                                                     r_responses = gradedResponses,
                                                     r_completedAt = completedAt saved \<rparr>), d2))))))))"

subsection \<open>PATCH /quiz-attempts/[id]/submit: save progress\<close>

text \<open>A truthy \<open>responses\<close> that is not an array has no \<open>map\<close>: the call throws.\<close>

definition ungraded :: "submitted_response \<Rightarrow> question_response" where
  "ungraded r =
     \<lparr> questionId = questionId r, answer = answer r,
       timeSpentSeconds = Some (case timeSpentSeconds r of None \<Rightarrow> 0 | Some t \<Rightarrow> t),
       isCorrect = False, pointsEarned = 0, attempts_made = 1 \<rparr>"

definition submit_PATCH :: "date \<Rightarrow> credential \<Rightarrow> oid \<Rightarrow> submit_body \<Rightarrow> db \<Rightarrow> response \<times> db" where
  "submit_PATCH now cred attemptId reqBody d =
     (case cred of
        NoToken \<Rightarrow> ((401, Error ''Authentication required''), d)
      | BadToken \<Rightarrow> caught ''Update quiz attempt error:'' ''Failed to update quiz attempt'' InvalidToken d
      | Token userId \<Rightarrow>
          (case users d userId of
             None \<Rightarrow> ((404, Error ''User not found''), d)
           | Some u \<Rightarrow>
               (case findById attemptId (attempts d) of
                  None \<Rightarrow> ((404, Error ''Quiz attempt not found''), d)
                | Some a \<Rightarrow>
                    if student a \<noteq> userId then ((403, Error ''Access denied''), d)
                    else if status a \<noteq> In_progress
                    then ((400, Error ''Quiz attempt is not in progress''), d)
                    else
                      (case body_responses reqBody of
                         NotArray \<Rightarrow> caught ''Update quiz attempt error:''
                                      ''Failed to update quiz attempt'' TypeError d
                       | fld \<Rightarrow>
                           let a1 = (case fld of Array rs \<Rightarrow> a\<lparr>responses := map ungraded rs\<rparr> | _ \<Rightarrow> a);
                               a2 = (case body_timeSpentMinutes reqBody of
                                       None \<Rightarrow> a1 | Some t \<Rightarrow> a1\<lparr>timeSpentMinutes := t\<rparr>)
                           in (case save_attempt now a2 d of
                                 Inl e \<Rightarrow> caught ''Update quiz attempt error:''
                                            ''Failed to update quiz attempt'' e d
                               | Inr (saved, d') \<Rightarrow> ((200, Message ''Progress saved''), d'))))))"

subsection \<open>DELETE /quizzes/[id]: delete or archive a quiz\<close>

text \<open>The quiz to archive was read from the store, where it had passed its validators,
  and only its status is assigned: \<open>quiz.save()\<close> runs the pre-save hook and writes.\<close>

definition quiz_DELETE :: "date \<Rightarrow> (nat \<Rightarrow> string) \<Rightarrow> credential \<Rightarrow> oid \<Rightarrow> db \<Rightarrow> response \<times> db" where
  "quiz_DELETE now gen cred quizId d =
     (case cred of
        NoToken \<Rightarrow> ((401, Error ''Authentication required''), d)
      | BadToken \<Rightarrow> caught ''Delete quiz error:'' ''Failed to delete quiz'' InvalidToken d
      | Token userId \<Rightarrow>
          (if (case users d userId of None \<Rightarrow> True | Some u \<Rightarrow> role u \<noteq> Teacher)
           then ((403, Error ''Only teachers can delete quizzes''), d)
           else
             (case quizzes d quizId of
                None \<Rightarrow> ((404, Error ''Quiz not found''), d)
              | Some q \<Rightarrow>
                  if author q \<noteq> userId then ((403, Error ''You can only delete your own quizzes''), d)
                  else
                    let attemptCount = length (filter (\<lambda>a. quiz a = quizId) (attempts d))
                    in if attemptCount > 0
                       then ((200, Message ''Quiz archived due to existing student attempts''),
                             d\<lparr>quizzes := (quizzes d)(quizId \<mapsto>
                                  quiz_pre_save now gen (q\<lparr>quiz_status := Archived\<rparr>))\<rparr>)
                       else ((200, Message ''Quiz deleted successfully''),
                             d\<lparr>quizzes := (quizzes d)(quizId := None)\<rparr>))))"


subsection \<open>Sequences of requests\<close>

datatype request =
    StartAttempt date client_info credential oid
  | SubmitAttempt date bool credential oid submit_body
  | SaveProgress date credential oid submit_body
  | DeleteQuiz date "nat \<Rightarrow> string" credential oid

fun handle :: "request \<Rightarrow> db \<Rightarrow> response \<times> db" where
  "handle (StartAttempt now client cred quizId) d = start_POST now client cred quizId d"
| "handle (SubmitAttempt now store_fails cred attemptId reqBody) d =
     submit_POST now store_fails cred attemptId reqBody d"
| "handle (SaveProgress now cred attemptId reqBody) d = submit_PATCH now cred attemptId reqBody d"
| "handle (DeleteQuiz now gen cred quizId) d = quiz_DELETE now gen cred quizId d"

text \<open>The store after a list of requests, served one after the other.\<close>

fun serve :: "request list \<Rightarrow> db \<Rightarrow> db" where
  "serve [] d = d"
| "serve (r # rs) d = serve rs (snd (handle r d))"

subsection \<open>Notions of the specification and example data\<close>




definition choice_question :: question where
  "choice_question = \<lparr> qid = ''q1'', qtype = Multiple_choice, correctAnswer = JNum 2, points = 3 \<rparr>"

definition choice_response :: submitted_response where
  "choice_response = \<lparr> questionId = ''q1'', answer = JStr ''2'', timeSpentSeconds = None \<rparr>"

text \<open>The attempt as the submit handler has assigned it just before \<open>attempt.save()\<close>,
  and the body of its 200 response; the handler is shown to compute both.\<close>

definition graded_attempt :: "date \<Rightarrow> quiz \<Rightarrow> submitted_response list \<Rightarrow> int option \<Rightarrow> attempt \<Rightarrow> attempt" where
  "graded_attempt now q rs minutes a =
     a\<lparr> responses := map (grade_response (questions q)) rs,
        score := sum_list (map pointsEarned (map (grade_response (questions q)) rs)),
        percentage := (if totalPoints q > 0
                       then js_round (of_int (sum_list (map pointsEarned (map (grade_response (questions q)) rs)))
                                        / of_int (totalPoints q) * 100)
                       else 0),
        timeSpentMinutes := (case minutes of None \<Rightarrow> 0 | Some t \<Rightarrow> t),
        status := Completed, completedAt := Some now, submittedAt := Some now \<rparr>"

definition graded_body :: "attempt \<Rightarrow> body" where
  "graded_body saved =
     Graded \<lparr> r_id = attempt_id saved, r_score = score saved, r_maxScore = maxScore saved,
              r_percentage = percentage saved, r_timeSpentMinutes = timeSpentMinutes saved,
              r_status = status saved, r_responses = responses saved,
              r_completedAt = completedAt saved \<rparr>"

text \<open>A store with two students (1 and 2), a teacher (9), the teacher's published quiz 10 of
  two true/false questions worth one point each, and the first student's attempt 100 in
  progress.\<close>

definition zero_analytics :: analytics where
  "zero_analytics = \<lparr> totalAttempts = 0, averageScore = 0, completionRate = 0, averageTimeMinutes = 0 \<rparr>"

definition demo_questions :: "question list" where
  "demo_questions =
     [\<lparr> qid = ''q1'', qtype = True_false, correctAnswer = JBool True, points = 1 \<rparr>,
      \<lparr> qid = ''q2'', qtype = True_false, correctAnswer = JBool False, points = 1 \<rparr>]"

definition demo_quiz :: quiz where
  "demo_quiz = \<lparr> author = 9, questions = demo_questions, quiz_status = Published, maxAttempts = 3,
                 passingScore = None, totalPoints = 2, publishedAt = Some 0, dueDate = None,
                 quiz_analytics = zero_analytics \<rparr>"

definition demo_attempt :: attempt where
  "demo_attempt = \<lparr> attempt_id = 100, quiz = 10, student = 1, attemptNumber = 1, status = In_progress,
                    responses = [], score = 0, maxScore = 2, percentage = 0, timeSpentMinutes = 0,
                    startedAt = 5, completedAt = None, submittedAt = None,
                    ipAddress = ''unknown'', userAgent = ''unknown'' \<rparr>"

definition demo_db :: db where
  "demo_db = \<lparr> users = [1 \<mapsto> \<lparr> role = Student \<rparr>, 2 \<mapsto> \<lparr> role = Student \<rparr>, 9 \<mapsto> \<lparr> role = Teacher \<rparr>],
               quizzes = [10 \<mapsto> demo_quiz], attempts = [demo_attempt], console = [] \<rparr>"

definition no_headers :: client_info where
  "no_headers = \<lparr> req_ip = None, forwarded_for = None, user_agent = None \<rparr>"

text \<open>A request whose \<open>user-agent\<close> header has 501 characters.\<close>

definition long_agent :: client_info where
  "long_agent = \<lparr> req_ip = Some ''10.0.0.7'', forwarded_for = None,
                   user_agent = Some (replicate 501 (CHR ''a'')) \<rparr>"

definition true_answer :: "string \<Rightarrow> submitted_response" where
  "true_answer i = \<lparr> questionId = i, answer = JBool True, timeSpentSeconds = Some 30 \<rparr>"

definition one_answer :: submit_body where
  "one_answer = \<lparr> body_responses = Array [true_answer ''q1''], body_timeSpentMinutes = Some 1 \<rparr>"

text \<open>The attempt as the progress-save handler has assigned it before \<open>attempt.save()\<close>.\<close>

definition progress_attempt :: "submit_body \<Rightarrow> attempt \<Rightarrow> attempt" where
  "progress_attempt reqBody a =
     (let a1 = (case body_responses reqBody of Array rs \<Rightarrow> a\<lparr>responses := map ungraded rs\<rparr> | _ \<Rightarrow> a)
      in case body_timeSpentMinutes reqBody of None \<Rightarrow> a1 | Some t \<Rightarrow> a1\<lparr>timeSpentMinutes := t\<rparr>)"

text \<open>The demo store with a second attempt, of student 2, already completed.\<close>

definition finished_attempt :: attempt where
  "finished_attempt = \<lparr> attempt_id = 101, quiz = 10, student = 2, attemptNumber = 1, status = Completed,
                    responses = [], score = 0, maxScore = 2, percentage = 0, timeSpentMinutes = 3,
                    startedAt = 5, completedAt = Some 8, submittedAt = Some 8,
                    ipAddress = ''unknown'', userAgent = ''unknown'' \<rparr>"

definition finished_db :: db where
  "finished_db = demo_db\<lparr>attempts := [demo_attempt, finished_attempt]\<rparr>"

text \<open>The quiz edited after an attempt started: student 1 starts an attempt while quiz 10
  has one question worth one point (\<open>early_db\<close>), then the author adds a second question
  (\<open>edited_db\<close>: the quiz is \<open>demo_quiz\<close> with two points in total, the attempt keeps
  \<open>maxScore = 1\<close>).\<close>

definition short_quiz :: quiz where
  "short_quiz = demo_quiz\<lparr>questions := [hd demo_questions], totalPoints := 1\<rparr>"

definition early_db :: db where
  "early_db = demo_db\<lparr>quizzes := [10 \<mapsto> short_quiz], attempts := []\<rparr>"

definition early_attempt :: attempt where
  "early_attempt = \<lparr> attempt_id = 0, quiz = 10, student = 1, attemptNumber = 1, status = In_progress,
                     responses = [], score = 0, maxScore = 1, percentage = 0, timeSpentMinutes = 0,
                     startedAt = 5, completedAt = None, submittedAt = None,
                     ipAddress = ''unknown'', userAgent = ''unknown'' \<rparr>"

definition edited_db :: db where
  "edited_db = demo_db\<lparr>attempts := [early_attempt]\<rparr>"

definition two_answers :: submit_body where
  "two_answers = \<lparr> body_responses = Array [true_answer ''q1'', (true_answer ''q2'')\<lparr>answer := JBool False\<rparr>],
                   body_timeSpentMinutes = Some 2 \<rparr>"

text \<open>The store \<open>finished_db\<close> with quiz 10 allowing a single attempt (student 2 has used it),
  published and as a draft.\<close>

definition limit_db :: db where
  "limit_db = finished_db\<lparr>quizzes := [10 \<mapsto> demo_quiz\<lparr>maxAttempts := 1\<rparr>]\<rparr>"

definition draft_db :: db where
  "draft_db = finished_db\<lparr>quizzes := [10 \<mapsto> demo_quiz\<lparr>maxAttempts := 1, quiz_status := Draft\<rparr>]\<rparr>"

text \<open>The two strings that the start handler stores with a new attempt, and the limits
  that the schema sets on them.\<close>

definition client_fits :: "client_info \<Rightarrow> bool" where
  "client_fits client =
     (length (js_or (req_ip client) (js_or (forwarded_for client) ''unknown'')) \<le> 45
      \<and> length (js_or (user_agent client) ''unknown'') \<le> 500)"

text \<open>The store as the handlers keep it: attempt ids are unique, and no attempt of a
  (student, quiz) pair carries a number above the number of attempts of the pair. The
  record that the start handler builds for a new attempt.\<close>

definition attempt_key :: "attempt \<Rightarrow> oid \<times> oid \<times> oid \<times> int" where
  "attempt_key a = (attempt_id a, student a, quiz a, attemptNumber a)"

definition numbered :: "(oid \<times> oid \<times> oid \<times> int) list \<Rightarrow> bool" where
  "numbered ks =
     (distinct (map fst ks)
      \<and> (\<forall>(i, s, q, n) \<in> set ks. n \<le> int (length (filter (\<lambda>(i', s', q', n'). s' = s \<and> q' = q) ks))))"

definition store_ok :: "db \<Rightarrow> bool" where
  "store_ok d = numbered (map attempt_key (attempts d))"

definition new_attempt :: "date \<Rightarrow> client_info \<Rightarrow> oid \<Rightarrow> oid \<Rightarrow> quiz \<Rightarrow> db \<Rightarrow> attempt" where
  "new_attempt now client userId quizId q d =
     \<lparr> attempt_id = new_oid (attempts d), quiz = quizId, student = userId,
       attemptNumber = getStudentAttemptCount userId quizId d + 1,
       status = In_progress, responses = [], score = 0, maxScore = totalPoints q, percentage = 0,
       timeSpentMinutes = 0, startedAt = now, completedAt = None, submittedAt = None,
       ipAddress = js_or (req_ip client) (js_or (forwarded_for client) ''unknown''),
       userAgent = js_or (user_agent client) ''unknown'' \<rparr>"

text \<open>The analytics block after one \<open>updateAnalytics\<close> per completed attempt, in order,
  from the schema defaults. A quiz of four one-point questions with two attempts in
  progress and the two submits that complete them; the store of the specification's
  example, two completed attempts with 80 and 60 percent.\<close>

definition running_analytics :: "attempt list \<Rightarrow> analytics" where
  "running_analytics as =
     foldl (\<lambda>an a. analytics_step an (percentage a) (timeSpentMinutes a) True) zero_analytics as"




definition scored :: "oid \<Rightarrow> oid \<Rightarrow> int \<Rightarrow> int \<Rightarrow> attempt" where
  "scored i s p t = demo_attempt\<lparr>attempt_id := i, student := s, status := Completed, score := p,
                                  maxScore := 100, percentage := p, timeSpentMinutes := t,
                                  completedAt := Some 9, submittedAt := Some 9\<rparr>"



text \<open>No attempt in progress carries a completion date.\<close>

definition no_early_completion :: "db \<Rightarrow> bool" where
  "no_early_completion d = (\<forall>a \<in> set (attempts d). status a = In_progress \<longrightarrow> completedAt a = None)"

section \<open>Properties\<close>

subsection \<open>The grader\<close>





text \<open>
  Claim C10. For a multiple-choice or true/false question of the quiz the response is correct
  exactly when the submitted value is strictly equal to the correct answer, with no
  coercion: a submitted string is graded incorrect with 0 points against a numeric correct
  answer (the string \<open>2\<close> against the index 2) and against a boolean one (the strings
  \<open>true\<close> and \<open>false\<close>).
\<close>

theorem strict_equality_grading:
  assumes found: "find (\<lambda>q. qid q = questionId r) qs = Some q"
      and ty: "qtype q = Multiple_choice \<or> qtype q = True_false"
  shows "(isCorrect (grade_response qs r) \<longleftrightarrow> answer r = correctAnswer q)
       \<and> ((\<exists>k. correctAnswer q = JNum k) \<and> (\<exists>s. answer r = JStr s) \<longrightarrow>
             \<not> isCorrect (grade_response qs r) \<and> pointsEarned (grade_response qs r) = 0)
       \<and> ((\<exists>b. correctAnswer q = JBool b) \<and> (\<exists>s. answer r = JStr s) \<longrightarrow>
             \<not> isCorrect (grade_response qs r) \<and> pointsEarned (grade_response qs r) = 0)"
  using found ty by (auto simp: grade_response_def Let_def strict_eq_def)

theorem strict_equality_grading_witness:
  "find (\<lambda>q. qid q = questionId choice_response) [choice_question] = Some choice_question
   \<and> qtype choice_question = Multiple_choice
   \<and> correctAnswer choice_question = JNum 2 \<and> answer choice_response = JStr ''2''
   \<and> \<not> isCorrect (grade_response [choice_question] choice_response)
   \<and> pointsEarned (grade_response [choice_question] choice_response) = 0"
proof -
  have f: "find (\<lambda>q. qid q = questionId choice_response) [choice_question] = Some choice_question"
    by (simp add: choice_question_def choice_response_def)
  have t: "qtype choice_question = Multiple_choice \<or> qtype choice_question = True_false"
    by (simp add: choice_question_def)
  have c: "correctAnswer choice_question = JNum 2"
    by (simp add: choice_question_def)
  have a: "answer choice_response = JStr ''2''"
    by (simp add: choice_response_def)
  have m: "qtype choice_question = Multiple_choice"
    by (simp add: choice_question_def)
  from strict_equality_grading [OF f t] c a f m show ?thesis
    by blast
qed

subsection \<open>Submitting an attempt\<close>

lemma caught_code: "fst (fst (caught l f e d)) = 401 \<or> fst (fst (caught l f e d)) = 500"
  by (simp add: caught_def)

lemma caught_not_200 [simp]: "caught l f e d \<noteq> ((200, bd), d')"
  by (auto simp: caught_def)

lemma pre_save_responses [simp]: "responses (attempt_pre_save now a) = responses a"
  by (simp add: attempt_pre_save_def Let_def)

lemma submit_POST_owner:
  assumes "users d uid = Some u" "role u = Student" "findById aid (attempts d) = Some a"
    "student a = uid" "status a = In_progress" "body_responses b = Array rs"
    "quizzes d (quiz a) = Some q"
  shows "submit_POST now sf (Token uid) aid b d =
     (let a' = graded_attempt now q rs (body_timeSpentMinutes b) a
      in case save_attempt now a' d of
           Inl e \<Rightarrow> caught ''Submit quiz attempt error:'' ''Failed to submit quiz attempt'' e d
         | Inr (saved, d1) \<Rightarrow>
             (case updateAnalytics sf (quiz a) (percentage a') (timeSpentMinutes a') True d1 of
                Inl e \<Rightarrow> caught ''Submit quiz attempt error:'' ''Failed to submit quiz attempt'' e d1
              | Inr d2 \<Rightarrow> ((200, graded_body saved), d2)))"
  using assms
  by (simp add: submit_POST_def graded_attempt_def graded_body_def Let_def save_attempt_def
      split: sum.splits prod.splits)

lemma submit_POST_200D:
  assumes "submit_POST now sf cred aid b d = ((200, bd), d')"
  shows "\<exists>uid u a rs q. cred = Token uid \<and> users d uid = Some u \<and> role u = Student
      \<and> findById aid (attempts d) = Some a \<and> student a = uid \<and> status a = In_progress
      \<and> body_responses b = Array rs \<and> quizzes d (quiz a) = Some q"
  using assms
  by (auto simp: submit_POST_def split: credential.splits option.splits if_splits responses_field.splits)


lemma findById_SomeD: "findById i xs = Some a \<Longrightarrow> attempt_id a = i \<and> a \<in> set xs"
  by (auto simp: findById_def find_Some_iff)

lemma findById_update:
  "attempt_id a' = i \<Longrightarrow>
   findById i (map (\<lambda>x. if attempt_id x = i then a' else x) xs)
     = (case findById i xs of None \<Rightarrow> None | Some x \<Rightarrow> Some a')"
  by (induction xs) (auto simp: findById_def)

lemma findById_update_other:
  "attempt_id a' = i \<Longrightarrow> j \<noteq> i \<Longrightarrow>
   findById j (map (\<lambda>x. if attempt_id x = i then a' else x) xs) = findById j xs"
  by (induction xs) (auto simp: findById_def)

lemma pre_save_id [simp]: "attempt_id (attempt_pre_save now a) = attempt_id a"
  by (simp add: attempt_pre_save_def Let_def)

lemma submit_POST_200_result:
  assumes ok: "submit_POST now sf cred aid b d = ((200, bd), d')"
      and a: "findById aid (attempts d) = Some a"
      and q: "quizzes d (quiz a) = Some q"
      and rs: "body_responses b = Array rs"
  shows "\<not> sf"
    "validate_attempt (graded_attempt now q rs (body_timeSpentMinutes b) a)"
    "bd = graded_body (attempt_pre_save now (graded_attempt now q rs (body_timeSpentMinutes b) a))"
    "attempts d' = map (\<lambda>x. if attempt_id x = aid
                            then attempt_pre_save now (graded_attempt now q rs (body_timeSpentMinutes b) a)
                            else x) (attempts d)"
    "quizzes d' = (quizzes d)(quiz a \<mapsto>
        q\<lparr>quiz_analytics := analytics_step (quiz_analytics q)
              (percentage (graded_attempt now q rs (body_timeSpentMinutes b) a))
              (timeSpentMinutes (graded_attempt now q rs (body_timeSpentMinutes b) a)) True\<rparr>)"
    "users d' = users d" "console d' = console d"
proof -
  let ?ga = "graded_attempt now q rs (body_timeSpentMinutes b) a"
  from submit_POST_200D [OF ok] a q rs obtain uid u where
    c: "cred = Token uid" "users d uid = Some u" "role u = Student" "student a = uid" "status a = In_progress"
    by auto
  have ida: "attempt_id ?ga = aid"
    using findById_SomeD [OF a] by (simp add: graded_attempt_def)
  have e: "submit_POST now sf (Token uid) aid b d =
     (case save_attempt now ?ga d of
           Inl e \<Rightarrow> caught ''Submit quiz attempt error:'' ''Failed to submit quiz attempt'' e d
         | Inr (saved, d1) \<Rightarrow>
             (case updateAnalytics sf (quiz a) (percentage ?ga) (timeSpentMinutes ?ga) True d1 of
                Inl e \<Rightarrow> caught ''Submit quiz attempt error:'' ''Failed to submit quiz attempt'' e d1
              | Inr d2 \<Rightarrow> ((200, graded_body saved), d2)))"
    using submit_POST_owner [OF c(2,3) a c(4,5) rs q] by (simp add: Let_def)
  from ok c(1) e have r: "(case save_attempt now ?ga d of
           Inl e \<Rightarrow> caught ''Submit quiz attempt error:'' ''Failed to submit quiz attempt'' e d
         | Inr (saved, d1) \<Rightarrow>
             (case updateAnalytics sf (quiz a) (percentage ?ga) (timeSpentMinutes ?ga) True d1 of
                Inl e \<Rightarrow> caught ''Submit quiz attempt error:'' ''Failed to submit quiz attempt'' e d1
              | Inr d2 \<Rightarrow> ((200, graded_body saved), d2))) = ((200, bd), d')"
    by simp
  show v: "validate_attempt ?ga"
    using r by (auto simp: save_attempt_def split: if_splits)
  show nsf: "\<not> sf"
    using r by (auto simp: save_attempt_def updateAnalytics_def Let_def split: if_splits)
  have q': "quizzes (d\<lparr>attempts := xs\<rparr>) (quiz a) = Some q" for xs
    using q by simp
  from r v nsf q ida show "bd = graded_body (attempt_pre_save now ?ga)"
    "attempts d' = map (\<lambda>x. if attempt_id x = aid then attempt_pre_save now ?ga else x) (attempts d)"
    "quizzes d' = (quizzes d)(quiz a \<mapsto>
        q\<lparr>quiz_analytics := analytics_step (quiz_analytics q) (percentage ?ga) (timeSpentMinutes ?ga) True\<rparr>)"
    "users d' = users d" "console d' = console d"
    by (auto simp: save_attempt_def updateAnalytics_def Let_def)
qed

text \<open>
  Claim C1, as amended. After a successful submit the response list stored on the attempt is
  the submitted list graded entry by entry: it has one entry per submitted response, in the
  submitted order and for the submitted question ids, whatever the number of questions of
  the quiz. A submitted response whose \<open>questionId\<close> matches no question is graded
  incorrect with 0 points. The score is the sum of the points of the stored entries, so a
  question without a submitted response has no entry and adds nothing.
\<close>

theorem submit_grades_submitted_responses:
  assumes ok: "submit_POST now sf cred aid b d = ((200, bd), d')"
      and a: "findById aid (attempts d) = Some a"
      and q: "quizzes d (quiz a) = Some q"
      and rs: "body_responses b = Array rs"
  shows "\<exists>a'. findById aid (attempts d') = Some a'
           \<and> responses a' = map (grade_response (questions q)) rs
           \<and> length (responses a') = length rs
           \<and> map questionId (responses a') = map questionId rs
           \<and> (\<forall>r \<in> set rs. find (\<lambda>qu. qid qu = questionId r) (questions q) = None \<longrightarrow>
                 \<not> isCorrect (grade_response (questions q) r)
                 \<and> pointsEarned (grade_response (questions q) r) = 0)
           \<and> score a' = sum_list (map pointsEarned (responses a'))"
proof -
  let ?ga = "graded_attempt now q rs (body_timeSpentMinutes b) a"
  let ?a' = "attempt_pre_save now ?ga"
  have at: "attempts d' = map (\<lambda>x. if attempt_id x = aid then ?a' else x) (attempts d)"
    using submit_POST_200_result(4) [OF ok a q rs] .
  have ida: "attempt_id ?a' = aid"
    using findById_SomeD [OF a] by (simp add: graded_attempt_def)
  have f: "findById aid (attempts d') = Some ?a'"
    using findById_update [OF ida, of "attempts d"] a at by simp
  have r: "responses ?a' = map (grade_response (questions q)) rs"
    by (simp add: graded_attempt_def)
  have s: "score ?a' = sum_list (map pointsEarned (responses ?a'))"
    by (simp add: attempt_pre_save_def graded_attempt_def Let_def)
  have i: "map questionId (map (grade_response (questions q)) rs) = map questionId rs"
    by (simp add: grade_response_def Let_def comp_def split: option.splits)
  have u: "\<forall>r \<in> set rs. find (\<lambda>qu. qid qu = questionId r) (questions q) = None \<longrightarrow>
                 \<not> isCorrect (grade_response (questions q) r)
                 \<and> pointsEarned (grade_response (questions q) r) = 0"
    by (simp add: grade_response_def)
  from f r s i u show ?thesis by simp
qed

text \<open>The blank answer that a client sends for an unanswered question is a part of every
  string: on a short-answer question it is graded correct.\<close>

lemma empty_short_answer_is_correct:
  "short_answer_correct (JStr '''') (JStr ''Paris'')"
  by code_simp

theorem submit_grades_submitted_responses_witness:
  "submit_POST 50 False (Token 1) 100 one_answer demo_db
     = ((200, snd (fst (submit_POST 50 False (Token 1) 100 one_answer demo_db))),
        snd (submit_POST 50 False (Token 1) 100 one_answer demo_db))
   \<and> findById 100 (attempts demo_db) = Some demo_attempt
   \<and> quizzes demo_db (quiz demo_attempt) = Some demo_quiz
   \<and> body_responses one_answer = Array [true_answer ''q1'']
   \<and> (\<exists>a'. findById 100 (attempts (snd (submit_POST 50 False (Token 1) 100 one_answer demo_db))) = Some a'
           \<and> length (responses a') = length [true_answer ''q1''])"
proof -
  have c: "fst (fst (submit_POST 50 False (Token 1) 100 one_answer demo_db)) = 200"
    by code_simp
  have ok: "submit_POST 50 False (Token 1) 100 one_answer demo_db
     = ((200, snd (fst (submit_POST 50 False (Token 1) 100 one_answer demo_db))),
        snd (submit_POST 50 False (Token 1) 100 one_answer demo_db))"
    using c by (metis prod.collapse)
  have a: "findById 100 (attempts demo_db) = Some demo_attempt"
    by (simp add: findById_def demo_db_def demo_attempt_def)
  have q: "quizzes demo_db (quiz demo_attempt) = Some demo_quiz"
    by (simp add: demo_db_def demo_attempt_def)
  have rs: "body_responses one_answer = Array [true_answer ''q1'']"
    by (simp add: one_answer_def)
  from submit_grades_submitted_responses [OF ok a q rs] ok a q rs show ?thesis
    by blast
qed

text \<open>The claim C1 as first stated (one graded entry for each of the N questions) fails: the
  quiz has two questions, the student submits one response, and the stored list has one
  entry.\<close>

theorem submit_grades_every_question_counterexample:
  "status demo_attempt = In_progress
   \<and> findById 100 (attempts demo_db) = Some demo_attempt
   \<and> quizzes demo_db (quiz demo_attempt) = Some demo_quiz
   \<and> length (questions demo_quiz) = 2
   \<and> fst (fst (submit_POST 50 False (Token 1) 100 one_answer demo_db)) = 200
   \<and> map responses (attempts (snd (submit_POST 50 False (Token 1) 100 one_answer demo_db)))
       = [[\<lparr> questionId = ''q1'', answer = JBool True, timeSpentSeconds = Some 30,
             isCorrect = True, pointsEarned = 1, attempts_made = 1 \<rparr>]]"
  by code_simp

subsection \<open>What the handlers do to the attempts\<close>

lemma caught_attempts [simp]: "attempts (snd (caught l f e d)) = attempts d"
  by (simp add: caught_def)

lemma save_attempt_eq:
  "save_attempt now a d =
     (if validate_attempt a
      then Inr (attempt_pre_save now a,
                d\<lparr>attempts := map (\<lambda>x. if attempt_id x = attempt_id a then attempt_pre_save now a else x) (attempts d)\<rparr>)
      else Inl ValidationError)"
  by (simp add: save_attempt_def Let_def)

lemma updateAnalytics_attempts:
  "updateAnalytics sf qi p t c d = Inr d2 \<Longrightarrow> attempts d2 = attempts d"
  by (auto simp: updateAnalytics_def split: if_splits option.splits)

lemma pre_save_keys [simp]:
  "student (attempt_pre_save now a) = student a"
  "quiz (attempt_pre_save now a) = quiz a"
  "attemptNumber (attempt_pre_save now a) = attemptNumber a"
  by (simp_all add: attempt_pre_save_def Let_def)

lemma graded_attempt_keys [simp]:
  "attempt_id (graded_attempt now q rs m a) = attempt_id a"
  "student (graded_attempt now q rs m a) = student a"
  "quiz (graded_attempt now q rs m a) = quiz a"
  "attemptNumber (graded_attempt now q rs m a) = attemptNumber a"
  by (simp_all add: graded_attempt_def)

lemma findById_append:
  "findById i xs = Some a \<Longrightarrow> findById i (xs @ ys) = Some a"
  by (induction xs) (auto simp: findById_def)

lemma start_POST_attempts:
  "attempts (snd (start_POST now cl cred qi d)) = attempts d
   \<or> (\<exists>n. attempts (snd (start_POST now cl cred qi d)) = attempts d @ [n])"
  unfolding start_POST_def save_new_attempt_def Let_def
  by (simp add: caught_def split: credential.splits option.splits sum.splits prod.splits)

lemma submit_POST_attempts:
  "attempts (snd (submit_POST now sf cred i b d)) = attempts d
   \<or> (\<exists>a0 a1. findById i (attempts d) = Some a0 \<and> status a0 = In_progress \<and> attempt_id a1 = i
         \<and> student a1 = student a0 \<and> quiz a1 = quiz a0 \<and> attemptNumber a1 = attemptNumber a0
         \<and> attempts (snd (submit_POST now sf cred i b d))
             = map (\<lambda>x. if attempt_id x = i then a1 else x) (attempts d))"
proof (cases "\<exists>uid u a rs q. cred = Token uid \<and> users d uid = Some u \<and> role u = Student
      \<and> findById i (attempts d) = Some a \<and> student a = uid \<and> status a = In_progress
      \<and> body_responses b = Array rs \<and> quizzes d (quiz a) = Some q")
  case True
  then obtain uid u a rs q where c: "cred = Token uid" "users d uid = Some u" "role u = Student"
    "findById i (attempts d) = Some a" "student a = uid" "status a = In_progress"
    "body_responses b = Array rs" "quizzes d (quiz a) = Some q"
    by blast
  let ?ga = "graded_attempt now q rs (body_timeSpentMinutes b) a"
  let ?d1 = "d\<lparr>attempts := map (\<lambda>x. if attempt_id x = i then attempt_pre_save now ?ga else x) (attempts d)\<rparr>"
  have ida: "attempt_id a = i"
    using findById_SomeD [OF c(4)] by simp
  have "attempts (snd (submit_POST now sf cred i b d)) = attempts d
     \<or> attempts (snd (submit_POST now sf cred i b d)) = attempts ?d1"
  proof (cases "validate_attempt ?ga")
    case False
    then show ?thesis
      unfolding c(1) submit_POST_owner [OF c(2,3,4,5,6,7,8)]
      by (simp add: Let_def save_attempt_eq)
  next
    case v: True
    show ?thesis
    proof (cases "updateAnalytics sf (quiz a) (percentage ?ga) (timeSpentMinutes ?ga) True ?d1")
      case (Inl e)
      then show ?thesis
        unfolding c(1) submit_POST_owner [OF c(2,3,4,5,6,7,8)]
        using v ida by (simp add: Let_def save_attempt_eq)
    next
      case (Inr d2)
      from updateAnalytics_attempts [OF Inr] Inr show ?thesis
        unfolding c(1) submit_POST_owner [OF c(2,3,4,5,6,7,8)]
        using v ida by (simp add: Let_def save_attempt_eq)
    qed
  qed
  then show ?thesis
  proof
    assume "attempts (snd (submit_POST now sf cred i b d)) = attempts d"
    then show ?thesis by simp
  next
    assume u: "attempts (snd (submit_POST now sf cred i b d)) = attempts ?d1"
    have "findById i (attempts d) = Some a \<and> status a = In_progress
         \<and> attempt_id (attempt_pre_save now ?ga) = i
         \<and> student (attempt_pre_save now ?ga) = student a \<and> quiz (attempt_pre_save now ?ga) = quiz a
         \<and> attemptNumber (attempt_pre_save now ?ga) = attemptNumber a
         \<and> attempts (snd (submit_POST now sf cred i b d))
             = map (\<lambda>x. if attempt_id x = i then attempt_pre_save now ?ga else x) (attempts d)"
      using u ida c(4,6) by simp
    then show ?thesis by blast
  qed
next
  case False
  then have "attempts (snd (submit_POST now sf cred i b d)) = attempts d"
    by (cases cred; cases "body_responses b")
       (auto simp: submit_POST_def split: option.splits)
  then show ?thesis by simp
qed

lemma progress_attempt_keys [simp]:
  "attempt_id (progress_attempt b a) = attempt_id a"
  "student (progress_attempt b a) = student a"
  "quiz (progress_attempt b a) = quiz a"
  "attemptNumber (progress_attempt b a) = attemptNumber a"
  "status (progress_attempt b a) = status a"
  by (simp_all add: progress_attempt_def Let_def split: responses_field.splits option.splits)

lemma submit_PATCH_owner:
  assumes "users d uid = Some u" "findById i (attempts d) = Some a"
    "student a = uid" "status a = In_progress" "body_responses b \<noteq> NotArray"
  shows "submit_PATCH now (Token uid) i b d =
     (case save_attempt now (progress_attempt b a) d of
        Inl e \<Rightarrow> caught ''Update quiz attempt error:'' ''Failed to update quiz attempt'' e d
      | Inr (saved, d') \<Rightarrow> ((200, Message ''Progress saved''), d'))"
  using assms
  by (cases "body_responses b")
     (simp_all add: submit_PATCH_def progress_attempt_def Let_def)

lemma submit_PATCH_attempts:
  "attempts (snd (submit_PATCH now cred i b d)) = attempts d
   \<or> (\<exists>a0 a1. findById i (attempts d) = Some a0 \<and> status a0 = In_progress \<and> attempt_id a1 = i
         \<and> student a1 = student a0 \<and> quiz a1 = quiz a0 \<and> attemptNumber a1 = attemptNumber a0
         \<and> attempts (snd (submit_PATCH now cred i b d))
             = map (\<lambda>x. if attempt_id x = i then a1 else x) (attempts d))"
proof (cases "\<exists>uid u a. cred = Token uid \<and> users d uid = Some u
      \<and> findById i (attempts d) = Some a \<and> student a = uid \<and> status a = In_progress
      \<and> body_responses b \<noteq> NotArray")
  case True
  then obtain uid u a where c: "cred = Token uid" "users d uid = Some u"
    "findById i (attempts d) = Some a" "student a = uid" "status a = In_progress"
    "body_responses b \<noteq> NotArray"
    by blast
  let ?p = "attempt_pre_save now (progress_attempt b a)"
  have ida: "attempt_id a = i"
    using findById_SomeD [OF c(3)] by simp
  show ?thesis
  proof (cases "validate_attempt (progress_attempt b a)")
    case False
    then show ?thesis
      unfolding c(1) submit_PATCH_owner [OF c(2,3,4,5,6)]
      by (simp add: save_attempt_eq)
  next
    case v: True
    have "findById i (attempts d) = Some a \<and> status a = In_progress
         \<and> attempt_id ?p = i \<and> student ?p = student a \<and> quiz ?p = quiz a
         \<and> attemptNumber ?p = attemptNumber a
         \<and> attempts (snd (submit_PATCH now cred i b d))
             = map (\<lambda>x. if attempt_id x = i then ?p else x) (attempts d)"
      unfolding c(1) submit_PATCH_owner [OF c(2,3,4,5,6)]
      using v ida c(3,5) by (simp add: save_attempt_eq)
    then show ?thesis by blast
  qed
next
  case False
  then have "attempts (snd (submit_PATCH now cred i b d)) = attempts d"
    by (cases cred; cases "body_responses b")
       (auto simp: submit_PATCH_def split: option.splits)
  then show ?thesis by simp
qed

lemma quiz_DELETE_attempts: "attempts (snd (quiz_DELETE now gen cred qi d)) = attempts d"
  by (auto simp: quiz_DELETE_def Let_def split: credential.splits option.splits)

lemma handle_keeps_finished:
  assumes a: "findById i (attempts d) = Some a" and st: "status a \<noteq> In_progress"
  shows "findById i (attempts (snd (handle r d))) = Some a"
proof (cases r)
  case (StartAttempt now cl cred qi)
  then show ?thesis
    using start_POST_attempts [of now cl cred qi d] a by (auto simp: findById_append)
next
  case (SubmitAttempt now sf cred j b)
  from submit_POST_attempts [of now sf cred j b d] show ?thesis
  proof
    assume "attempts (snd (submit_POST now sf cred j b d)) = attempts d"
    then show ?thesis using a SubmitAttempt by simp
  next
    assume "\<exists>a0 a1. findById j (attempts d) = Some a0 \<and> status a0 = In_progress \<and> attempt_id a1 = j
         \<and> student a1 = student a0 \<and> quiz a1 = quiz a0 \<and> attemptNumber a1 = attemptNumber a0
         \<and> attempts (snd (submit_POST now sf cred j b d))
             = map (\<lambda>x. if attempt_id x = j then a1 else x) (attempts d)"
    then obtain a0 a1 where h: "findById j (attempts d) = Some a0" "status a0 = In_progress"
      "attempt_id a1 = j"
      "attempts (snd (submit_POST now sf cred j b d)) = map (\<lambda>x. if attempt_id x = j then a1 else x) (attempts d)"
      by blast
    have "i \<noteq> j" using h(1,2) a st by auto
    then show ?thesis
      using findById_update_other [OF h(3), of i "attempts d"] h(4) a SubmitAttempt by simp
  qed
next
  case (SaveProgress now cred j b)
  from submit_PATCH_attempts [of now cred j b d] show ?thesis
  proof
    assume "attempts (snd (submit_PATCH now cred j b d)) = attempts d"
    then show ?thesis using a SaveProgress by simp
  next
    assume "\<exists>a0 a1. findById j (attempts d) = Some a0 \<and> status a0 = In_progress \<and> attempt_id a1 = j
         \<and> student a1 = student a0 \<and> quiz a1 = quiz a0 \<and> attemptNumber a1 = attemptNumber a0
         \<and> attempts (snd (submit_PATCH now cred j b d))
             = map (\<lambda>x. if attempt_id x = j then a1 else x) (attempts d)"
    then obtain a0 a1 where h: "findById j (attempts d) = Some a0" "status a0 = In_progress"
      "attempt_id a1 = j"
      "attempts (snd (submit_PATCH now cred j b d)) = map (\<lambda>x. if attempt_id x = j then a1 else x) (attempts d)"
      by blast
    have "i \<noteq> j" using h(1,2) a st by auto
    then show ?thesis
      using findById_update_other [OF h(3), of i "attempts d"] h(4) a SaveProgress by simp
  qed
next
  case (DeleteQuiz now gen cred qi)
  then show ?thesis using a by (simp add: quiz_DELETE_attempts)
qed

lemma serve_keeps_finished:
  "findById i (attempts d) = Some a \<Longrightarrow> status a \<noteq> In_progress
   \<Longrightarrow> findById i (attempts (serve rs d)) = Some a"
proof (induction rs arbitrary: d)
  case Nil
  then show ?case by simp
next
  case (Cons r rs)
  from handle_keeps_finished [OF Cons.prems] Cons.IH Cons.prems(2) show ?case by simp
qed

text \<open>
  Claim C4. A submit request for an attempt that is not in progress is answered 400 when the
  attempt's owner sends it, and whoever sends it the attempts (score, percentage, status,
  responses, \<open>completedAt\<close>) and the quizzes stay as they were; whatever requests follow,
  the attempt is still read back unchanged. A successful submit stores the attempt as
  completed with \<open>completedAt = now\<close>, and after it no sequence of requests changes the
  attempt any more: \<open>completedAt\<close> is set by the transition into completed and only there
  (an attempt in progress has none, \<open>no_early_completion_serve\<close>).
\<close>

theorem submit_only_in_progress:
  assumes a: "findById i (attempts d) = Some a"
  shows "(status a \<noteq> In_progress \<longrightarrow>
            (users d uid = Some u \<and> role u = Student \<and> student a = uid \<longrightarrow>
               submit_POST now sf (Token uid) i b d = ((400, Error ''Quiz attempt is not in progress''), d))
          \<and> attempts (snd (submit_POST now sf cred i b d)) = attempts d
          \<and> quizzes (snd (submit_POST now sf cred i b d)) = quizzes d
          \<and> (\<forall>rs. findById i (attempts (serve rs d)) = Some a))
       \<and> (submit_POST now sf cred i b d = ((200, bd), d') \<longrightarrow>
            (\<exists>a'. findById i (attempts d') = Some a' \<and> status a' = Completed
                 \<and> completedAt a' = Some now
                 \<and> (\<forall>rs. findById i (attempts (serve rs d')) = Some a')))"
proof (intro conjI impI)
  assume st: "status a \<noteq> In_progress"
  show "submit_POST now sf (Token uid) i b d = ((400, Error ''Quiz attempt is not in progress''), d)"
    if "users d uid = Some u \<and> role u = Student \<and> student a = uid"
    using that a st by (simp add: submit_POST_def)
  show "attempts (snd (submit_POST now sf cred i b d)) = attempts d"
    using a st by (cases cred) (auto simp: submit_POST_def caught_def split: option.splits)
  show "quizzes (snd (submit_POST now sf cred i b d)) = quizzes d"
    using a st by (cases cred) (auto simp: submit_POST_def caught_def split: option.splits)
  show "\<forall>rs. findById i (attempts (serve rs d)) = Some a"
    using serve_keeps_finished [OF a st] by simp
next
  assume ok: "submit_POST now sf cred i b d = ((200, bd), d')"
  from submit_POST_200D [OF ok] a obtain rs q where
    rs: "body_responses b = Array rs" and q: "quizzes d (quiz a) = Some q"
    by auto
  let ?a' = "attempt_pre_save now (graded_attempt now q rs (body_timeSpentMinutes b) a)"
  have at: "attempts d' = map (\<lambda>x. if attempt_id x = i then ?a' else x) (attempts d)"
    using submit_POST_200_result(4) [OF ok a q rs] .
  have ida: "attempt_id ?a' = i"
    using findById_SomeD [OF a] by simp
  have f: "findById i (attempts d') = Some ?a'"
    using findById_update [OF ida, of "attempts d"] a at by simp
  have s: "status ?a' = Completed" "completedAt ?a' = Some now"
    by (simp_all add: attempt_pre_save_def graded_attempt_def Let_def)
  have "\<forall>rs. findById i (attempts (serve rs d')) = Some ?a'"
    using serve_keeps_finished [OF f] s(1) by simp
  with f s show "\<exists>a'. findById i (attempts d') = Some a' \<and> status a' = Completed
                 \<and> completedAt a' = Some now
                 \<and> (\<forall>rs. findById i (attempts (serve rs d')) = Some a')"
    by blast
qed

theorem submit_only_in_progress_witness:
  "findById 101 (attempts finished_db) = Some finished_attempt
   \<and> status finished_attempt \<noteq> In_progress
   \<and> users finished_db 2 = Some \<lparr> role = Student \<rparr> \<and> role \<lparr> role = Student \<rparr> = Student
   \<and> student finished_attempt = 2
   \<and> submit_POST 60 False (Token 2) 101 one_answer finished_db
        = ((400, Error ''Quiz attempt is not in progress''), finished_db)
   \<and> findById 101 (attempts (serve [SubmitAttempt 61 False (Token 2) 101 one_answer,
                                       SaveProgress 62 (Token 2) 101 one_answer] finished_db))
        = Some finished_attempt
   \<and> (\<exists>a'. findById 100 (attempts (snd (submit_POST 50 False (Token 1) 100 one_answer demo_db))) = Some a'
          \<and> status a' = Completed \<and> completedAt a' = Some 50)"
proof -
  have a: "findById 101 (attempts finished_db) = Some finished_attempt"
    by (simp add: findById_def finished_db_def finished_attempt_def demo_attempt_def)
  have st: "status finished_attempt \<noteq> In_progress"
    by (simp add: finished_attempt_def)
  have u: "users finished_db 2 = Some \<lparr> role = Student \<rparr> \<and> role \<lparr> role = Student \<rparr> = Student
     \<and> student finished_attempt = 2"
    by (simp add: finished_db_def demo_db_def finished_attempt_def)
  have c: "fst (fst (submit_POST 50 False (Token 1) 100 one_answer demo_db)) = 200"
    by code_simp
  have ok: "submit_POST 50 False (Token 1) 100 one_answer demo_db
     = ((200, snd (fst (submit_POST 50 False (Token 1) 100 one_answer demo_db))),
        snd (submit_POST 50 False (Token 1) 100 one_answer demo_db))"
    using c by (metis prod.collapse)
  have a0: "findById 100 (attempts demo_db) = Some demo_attempt"
    by (simp add: findById_def demo_db_def demo_attempt_def)
  from submit_only_in_progress [OF a, of 2 "\<lparr> role = Student \<rparr>" 60 False one_answer]
    a st u
  have first: "submit_POST 60 False (Token 2) 101 one_answer finished_db
        = ((400, Error ''Quiz attempt is not in progress''), finished_db)
   \<and> findById 101 (attempts (serve [SubmitAttempt 61 False (Token 2) 101 one_answer,
                                       SaveProgress 62 (Token 2) 101 one_answer] finished_db))
        = Some finished_attempt"
    by blast
  from submit_only_in_progress [OF a0, of _ _ 50 False one_answer "Token 1"] ok
  have second: "\<exists>a'. findById 100 (attempts (snd (submit_POST 50 False (Token 1) 100 one_answer demo_db))) = Some a'
          \<and> status a' = Completed \<and> completedAt a' = Some 50"
    by blast
  from first second a st u show ?thesis
    by blast
qed

subsection \<open>Percentage and analytics at submit\<close>

text \<open>On every successful submit the stored percentage is the rounded ratio of the score to
  the \<open>maxScore\<close> that the attempt took at admission, and it lies between 0 and 100 when
  the score does not exceed that \<open>maxScore\<close>.\<close>

lemma js_round_bounds:
  assumes "0 \<le> x" "x \<le> 100"
  shows "0 \<le> js_round x" "js_round x \<le> 100"
proof -
  show "0 \<le> js_round x"
    unfolding js_round_def using assms(1) by simp
  have "x + 1 / 2 < of_int (101 :: int)"
    using assms(2) by simp
  then have "\<lfloor>x + 1 / 2\<rfloor> < 101"
    by (simp only: floor_less_iff)
  then show "js_round x \<le> 100"
    unfolding js_round_def by simp
qed

lemma ratio_percent_bounds:
  fixes a b :: rat
  assumes "0 \<le> a" "a \<le> b" "0 < b"
  shows "0 \<le> a / b * 100" "a / b * 100 \<le> 100"
  using assms by (simp_all add: field_simps)

lemma submit_percentage_of_snapshot:
  assumes ok: "submit_POST now sf cred i b d = ((200, bd), d')"
      and a: "findById i (attempts d) = Some a"
      and q: "quizzes d (quiz a) = Some q"
      and rs: "body_responses b = Array rs"
  shows "\<exists>a'. findById i (attempts d') = Some a' \<and> maxScore a' = maxScore a
           \<and> percentage a' = js_round (of_int (score a') / of_int (maxScore a') * 100)
           \<and> (score a' \<le> maxScore a' \<longrightarrow> 0 \<le> percentage a' \<and> percentage a' \<le> 100)"
proof -
  let ?ga = "graded_attempt now q rs (body_timeSpentMinutes b) a"
  let ?a' = "attempt_pre_save now ?ga"
  have v: "validate_attempt ?ga"
    using submit_POST_200_result(2) [OF ok a q rs] .
  then have m: "1 \<le> maxScore a" and s: "0 \<le> score ?ga"
    by (simp_all add: validate_attempt_def graded_attempt_def)
  have at: "attempts d' = map (\<lambda>x. if attempt_id x = i then ?a' else x) (attempts d)"
    using submit_POST_200_result(4) [OF ok a q rs] .
  have ida: "attempt_id ?a' = i"
    using findById_SomeD [OF a] by simp
  have f: "findById i (attempts d') = Some ?a'"
    using findById_update [OF ida, of "attempts d"] a at by simp
  have ms: "maxScore ?a' = maxScore a" "score ?a' = score ?ga"
    by (simp_all add: attempt_pre_save_def graded_attempt_def Let_def)
  have p: "percentage ?a' = js_round (of_int (score ?a') / of_int (maxScore ?a') * 100)"
    using m by (simp add: attempt_pre_save_def graded_attempt_def Let_def)
  have bnd: "0 \<le> percentage ?a' \<and> percentage ?a' \<le> 100" if le: "score ?a' \<le> maxScore ?a'"
  proof -
    let ?x = "(of_int (score ?a') :: rat) / of_int (maxScore ?a') * 100"
    have pos: "(0 :: rat) < of_int (maxScore ?a')" using m ms by simp
    have nn: "(0 :: rat) \<le> of_int (score ?a')" using s ms by simp
    have le': "(of_int (score ?a') :: rat) \<le> of_int (maxScore ?a')" using le by simp
    from ratio_percent_bounds [OF nn le' pos] show ?thesis
      unfolding p using js_round_bounds [of ?x] by blast
  qed
  from f ms(1) p bnd show ?thesis by blast
qed

text \<open>
  Claim C5 at a failing input. The attempt started with \<open>maxScore = 1\<close>; the quiz now has two
  one-point questions. Both submitted answers are correct, the handler's own percentage
  (against \<open>totalPoints = 2\<close>) is 100 and passes the schema's \<open>max: 100\<close>, and the pre-save
  hook then stores \<open>round (100 * 2 / 1) = 200\<close>: the submit succeeds with a percentage above
  100 and a score above \<open>maxScore\<close>.
\<close>

theorem percentage_above_100_after_quiz_edit:
  "attempts (snd (start_POST 5 no_headers (Token 1) 10 early_db)) = [early_attempt]
   \<and> maxScore early_attempt = 1 \<and> totalPoints demo_quiz = 2
   \<and> fst (submit_POST 50 False (Token 1) 0 two_answers edited_db)
       = (200, Graded \<lparr> r_id = 0, r_score = 2, r_maxScore = 1, r_percentage = 200,
                        r_timeSpentMinutes = 2, r_status = Completed,
                        r_responses = [\<lparr> questionId = ''q1'', answer = JBool True, timeSpentSeconds = Some 30,
                                         isCorrect = True, pointsEarned = 1, attempts_made = 1 \<rparr>,
                                       \<lparr> questionId = ''q2'', answer = JBool False, timeSpentSeconds = Some 30,
                                         isCorrect = True, pointsEarned = 1, attempts_made = 1 \<rparr>],
                        r_completedAt = Some 50 \<rparr>)
   \<and> map percentage (attempts (snd (submit_POST 50 False (Token 1) 0 two_answers edited_db))) = [200]
   \<and> map score (attempts (snd (submit_POST 50 False (Token 1) 0 two_answers edited_db))) = [2]
   \<and> map maxScore (attempts (snd (submit_POST 50 False (Token 1) 0 two_answers edited_db))) = [1]"
  by code_simp


lemma updateAnalytics_fails [simp]: "updateAnalytics True qi p t c d = Inl StoreError"
  by (simp add: updateAnalytics_def)



subsection \<open>Starting an attempt\<close>

text \<open>
  Claim C3, as amended. When a student's count of terminal attempts on a quiz has reached
  \<open>settings.maxAttempts\<close>, the start request is answered 403 and the store is returned as it
  was, so no attempt is created. The error is the attempt-limit one
  (\<open>Maximum N attempts reached\<close>) when the quiz is published and its due date has not
  passed; the checks of publication and of the due date come first and answer 403 with
  their own message otherwise.
\<close>

theorem attempt_limit_rejects:
  assumes u: "users d uid = Some u" "role u = Student"
      and q: "quizzes d qi = Some q"
      and lim: "getStudentAttemptCount uid qi d \<ge> maxAttempts q"
  shows "fst (fst (start_POST now cl (Token uid) qi d)) = 403
       \<and> snd (start_POST now cl (Token uid) qi d) = d
       \<and> (quiz_status q = Published \<and> (case dueDate q of None \<Rightarrow> True | Some due \<Rightarrow> now \<le> due) \<longrightarrow>
            start_POST now cl (Token uid) qi d
              = ((403, Error (''Maximum '' @ js_String (JNum (maxAttempts q)) @ '' attempts reached'')), d))"
  using u q lim
  by (simp add: start_POST_def Let_def split: option.splits)

theorem attempt_limit_rejects_witness:
  "users limit_db 2 = Some \<lparr> role = Student \<rparr> \<and> role \<lparr> role = Student \<rparr> = Student
   \<and> quizzes limit_db 10 = Some (demo_quiz\<lparr>maxAttempts := 1\<rparr>)
   \<and> getStudentAttemptCount 2 10 limit_db \<ge> maxAttempts (demo_quiz\<lparr>maxAttempts := 1\<rparr>)
   \<and> quiz_status (demo_quiz\<lparr>maxAttempts := 1\<rparr>) = Published
   \<and> (case dueDate (demo_quiz\<lparr>maxAttempts := 1\<rparr>) of None \<Rightarrow> True | Some due \<Rightarrow> 60 \<le> due)
   \<and> start_POST 60 no_headers (Token 2) 10 limit_db = ((403, Error ''Maximum 1 attempts reached''), limit_db)"
proof -
  have u: "users limit_db 2 = Some \<lparr> role = Student \<rparr>" "role \<lparr> role = Student \<rparr> = Student"
    by (simp_all add: limit_db_def finished_db_def demo_db_def)
  have q: "quizzes limit_db 10 = Some (demo_quiz\<lparr>maxAttempts := 1\<rparr>)"
    by (simp add: limit_db_def)
  have lim: "getStudentAttemptCount 2 10 limit_db \<ge> maxAttempts (demo_quiz\<lparr>maxAttempts := 1\<rparr>)"
    by (simp add: getStudentAttemptCount_def limit_db_def finished_db_def demo_attempt_def
        finished_attempt_def terminal_def)
  have p: "quiz_status (demo_quiz\<lparr>maxAttempts := 1\<rparr>) = Published"
    "(case dueDate (demo_quiz\<lparr>maxAttempts := 1\<rparr>) of None \<Rightarrow> True | Some due \<Rightarrow> 60 \<le> due)"
    by (simp_all add: demo_quiz_def)
  have m: "''Maximum '' @ js_String (JNum (maxAttempts (demo_quiz\<lparr>maxAttempts := 1\<rparr>))) @ '' attempts reached''
      = ''Maximum 1 attempts reached''"
    by code_simp
  from attempt_limit_rejects [OF u q lim, of 60] p m u q lim show ?thesis
    by simp
qed

text \<open>The claim C3 as first stated (the attempt-limit error for every quiz) fails on a draft
  quiz: the limit is reached, and the answer is 403 \<open>Quiz is not available\<close>.\<close>

theorem attempt_limit_on_draft_quiz_counterexample:
  "users draft_db 2 = Some \<lparr> role = Student \<rparr>
   \<and> getStudentAttemptCount 2 10 draft_db = 1
   \<and> map_option maxAttempts (quizzes draft_db 10) = Some 1
   \<and> map_option quiz_status (quizzes draft_db 10) = Some Draft
   \<and> fst (start_POST 60 no_headers (Token 2) 10 draft_db) = (403, Error ''Quiz is not available'')
   \<and> fst (start_POST 60 no_headers (Token 2) 10 draft_db) \<noteq> (403, Error ''Maximum 1 attempts reached'')"
proof -
  have x1: "users draft_db 2 = Some \<lparr> role = Student \<rparr>"
    by (simp add: draft_db_def finished_db_def demo_db_def)
  have x2: "getStudentAttemptCount 2 10 draft_db = 1"
    by code_simp
  have x3: "map_option maxAttempts (quizzes draft_db 10) = Some 1"
    by (simp add: draft_db_def)
  have x4: "map_option quiz_status (quizzes draft_db 10) = Some Draft"
    by (simp add: draft_db_def)
  have x5: "fst (start_POST 60 no_headers (Token 2) 10 draft_db) = (403, Error ''Quiz is not available'')"
    by code_simp
  from x1 x2 x3 x4 x5 show ?thesis
    by simp
qed

subsection \<open>Deleting a quiz\<close>

lemma regenerated_ids_keep_points:
  "map (points \<circ> (\<lambda>(i, qu). if qid qu = [] then qu\<lparr>qid := gen i\<rparr> else qu)) (enumerate n xs)
     = map points xs"
  by (induction xs arbitrary: n) simp_all

lemma regenerated_ids_keep_answers:
  "map (correctAnswer \<circ> (\<lambda>(i, qu). if qid qu = [] then qu\<lparr>qid := gen i\<rparr> else qu)) (enumerate n xs)
     = map correctAnswer xs"
  by (induction xs arbitrary: n) simp_all

text \<open>
  Claim C9. For a teacher deleting a quiz of their own: with no attempt on the quiz the quiz
  record is removed (it is no longer found; the other quizzes and the attempts stay); with
  at least one attempt, in any status, the answer is still 200 but the quiz is kept with
  status archived (same author, questions' points and answers, analytics), it is still
  found under its id, and no quiz and no attempt is deleted.
\<close>

theorem delete_or_archive:
  assumes u: "users d uid = Some u" "role u = Teacher"
      and q: "quizzes d qi = Some q" "author q = uid"
  shows "(filter (\<lambda>a. quiz a = qi) (attempts d) = [] \<longrightarrow>
            fst (quiz_DELETE now gen (Token uid) qi d) = (200, Message ''Quiz deleted successfully'')
          \<and> quizzes (snd (quiz_DELETE now gen (Token uid) qi d)) qi = None
          \<and> (\<forall>j. j \<noteq> qi \<longrightarrow> quizzes (snd (quiz_DELETE now gen (Token uid) qi d)) j = quizzes d j)
          \<and> attempts (snd (quiz_DELETE now gen (Token uid) qi d)) = attempts d)
       \<and> (filter (\<lambda>a. quiz a = qi) (attempts d) \<noteq> [] \<longrightarrow>
            fst (quiz_DELETE now gen (Token uid) qi d)
              = (200, Message ''Quiz archived due to existing student attempts'')
          \<and> (\<exists>q'. quizzes (snd (quiz_DELETE now gen (Token uid) qi d)) qi = Some q'
                 \<and> quiz_status q' = Archived \<and> author q' = author q
                 \<and> map points (questions q') = map points (questions q)
                 \<and> map correctAnswer (questions q') = map correctAnswer (questions q)
                 \<and> quiz_analytics q' = quiz_analytics q)
          \<and> (\<forall>j. j \<noteq> qi \<longrightarrow> quizzes (snd (quiz_DELETE now gen (Token uid) qi d)) j = quizzes d j)
          \<and> dom (quizzes (snd (quiz_DELETE now gen (Token uid) qi d))) = dom (quizzes d)
          \<and> attempts (snd (quiz_DELETE now gen (Token uid) qi d)) = attempts d)"
proof -
  let ?q' = "quiz_pre_save now gen (q\<lparr>quiz_status := Archived\<rparr>)"
  have qs: "map points (questions ?q') = map points (questions q)"
    "map correctAnswer (questions ?q') = map correctAnswer (questions q)"
    by (simp_all add: quiz_pre_save_def Let_def regenerated_ids_keep_points
        regenerated_ids_keep_answers)
  have ps: "quiz_status ?q' = Archived" "author ?q' = author q" "quiz_analytics ?q' = quiz_analytics q"
    by (simp_all add: quiz_pre_save_def Let_def)
  have del: "quiz_DELETE now gen (Token uid) qi d
      = ((200, Message ''Quiz deleted successfully''), d\<lparr>quizzes := (quizzes d)(qi := None)\<rparr>)"
    if "filter (\<lambda>a. quiz a = qi) (attempts d) = []"
    using u q that by (simp add: quiz_DELETE_def Let_def)
  have arch: "quiz_DELETE now gen (Token uid) qi d
      = ((200, Message ''Quiz archived due to existing student attempts''),
         d\<lparr>quizzes := (quizzes d)(qi \<mapsto> ?q')\<rparr>)"
    if "filter (\<lambda>a. quiz a = qi) (attempts d) \<noteq> []"
    using u q that by (simp add: quiz_DELETE_def Let_def)
  have d: "dom ((quizzes d)(qi \<mapsto> ?q')) = dom (quizzes d)"
    using q(1) by auto
  show ?thesis
  proof (intro conjI impI)
    assume e: "filter (\<lambda>a. quiz a = qi) (attempts d) = []"
    show "fst (quiz_DELETE now gen (Token uid) qi d) = (200, Message ''Quiz deleted successfully'')"
      "quizzes (snd (quiz_DELETE now gen (Token uid) qi d)) qi = None"
      "\<forall>j. j \<noteq> qi \<longrightarrow> quizzes (snd (quiz_DELETE now gen (Token uid) qi d)) j = quizzes d j"
      "attempts (snd (quiz_DELETE now gen (Token uid) qi d)) = attempts d"
      unfolding del [OF e] by simp_all
  next
    assume e: "filter (\<lambda>a. quiz a = qi) (attempts d) \<noteq> []"
    show "fst (quiz_DELETE now gen (Token uid) qi d)
              = (200, Message ''Quiz archived due to existing student attempts'')"
      "\<forall>j. j \<noteq> qi \<longrightarrow> quizzes (snd (quiz_DELETE now gen (Token uid) qi d)) j = quizzes d j"
      "attempts (snd (quiz_DELETE now gen (Token uid) qi d)) = attempts d"
      unfolding arch [OF e] by simp_all
    show "dom (quizzes (snd (quiz_DELETE now gen (Token uid) qi d))) = dom (quizzes d)"
      unfolding arch [OF e] using d by simp
    have "quizzes (snd (quiz_DELETE now gen (Token uid) qi d)) qi = Some ?q'"
      unfolding arch [OF e] by simp
    with qs ps show "\<exists>q'. quizzes (snd (quiz_DELETE now gen (Token uid) qi d)) qi = Some q'
                 \<and> quiz_status q' = Archived \<and> author q' = author q
                 \<and> map points (questions q') = map points (questions q)
                 \<and> map correctAnswer (questions q') = map correctAnswer (questions q)
                 \<and> quiz_analytics q' = quiz_analytics q"
      by blast
  qed
qed

theorem delete_or_archive_witness:
  "users demo_db 9 = Some \<lparr> role = Teacher \<rparr> \<and> role \<lparr> role = Teacher \<rparr> = Teacher
   \<and> quizzes demo_db 10 = Some demo_quiz \<and> author demo_quiz = 9
   \<and> filter (\<lambda>a. quiz a = 10) (attempts demo_db) \<noteq> []
   \<and> fst (quiz_DELETE 70 (\<lambda>i. ''generated'') (Token 9) 10 demo_db)
        = (200, Message ''Quiz archived due to existing student attempts'')
   \<and> attempts (snd (quiz_DELETE 70 (\<lambda>i. ''generated'') (Token 9) 10 demo_db)) = attempts demo_db
   \<and> quizzes early_db 10 = Some short_quiz \<and> author short_quiz = 9
   \<and> filter (\<lambda>a. quiz a = 10) (attempts early_db) = []
   \<and> fst (quiz_DELETE 70 (\<lambda>i. ''generated'') (Token 9) 10 early_db)
        = (200, Message ''Quiz deleted successfully'')
   \<and> quizzes (snd (quiz_DELETE 70 (\<lambda>i. ''generated'') (Token 9) 10 early_db)) 10 = None"
proof -
  have u: "users demo_db 9 = Some \<lparr> role = Teacher \<rparr>" "role \<lparr> role = Teacher \<rparr> = Teacher"
    by (simp_all add: demo_db_def)
  have q: "quizzes demo_db 10 = Some demo_quiz" "author demo_quiz = 9"
    by (simp_all add: demo_db_def demo_quiz_def)
  have n: "filter (\<lambda>a. quiz a = 10) (attempts demo_db) \<noteq> []"
    by (simp add: demo_db_def demo_attempt_def)
  have u': "users early_db 9 = Some \<lparr> role = Teacher \<rparr>"
    by (simp add: early_db_def demo_db_def)
  have q': "quizzes early_db 10 = Some short_quiz" "author short_quiz = 9"
    by (simp_all add: early_db_def short_quiz_def demo_quiz_def)
  have e: "filter (\<lambda>a. quiz a = 10) (attempts early_db) = []"
    by (simp add: early_db_def)
  from delete_or_archive [OF u q, of 70 "\<lambda>i. ''generated''"] n
  have first: "fst (quiz_DELETE 70 (\<lambda>i. ''generated'') (Token 9) 10 demo_db)
        = (200, Message ''Quiz archived due to existing student attempts'')
   \<and> attempts (snd (quiz_DELETE 70 (\<lambda>i. ''generated'') (Token 9) 10 demo_db)) = attempts demo_db"
    by blast
  from delete_or_archive [OF u' u(2) q', of 70 "\<lambda>i. ''generated''"] e
  have second: "fst (quiz_DELETE 70 (\<lambda>i. ''generated'') (Token 9) 10 early_db)
        = (200, Message ''Quiz deleted successfully'')
   \<and> quizzes (snd (quiz_DELETE 70 (\<lambda>i. ''generated'') (Token 9) 10 early_db)) 10 = None"
    by blast
  from first second u q n q' e show ?thesis
    by blast
qed

subsection \<open>Admission of an attempt\<close>

lemma fold_max_ge: "m \<le> fold (\<lambda>a m. max (Suc (attempt_id a)) m) xs m"
  by (induction xs arbitrary: m) (auto intro: order_trans [OF max.cobounded2])

lemma new_oid_fresh_aux:
  "a \<in> set xs \<Longrightarrow> attempt_id a < fold (\<lambda>a m. max (Suc (attempt_id a)) m) xs m"
proof (induction xs arbitrary: m)
  case Nil
  then show ?case by simp
next
  case (Cons x xs)
  show ?case
  proof (cases "a = x")
    case True
    have "Suc (attempt_id x) \<le> max (Suc (attempt_id x)) m" by simp
    also have "\<dots> \<le> fold (\<lambda>a m. max (Suc (attempt_id a)) m) xs (max (Suc (attempt_id x)) m)"
      by (rule fold_max_ge)
    finally show ?thesis using True by simp
  next
    case False
    with Cons.prems have "a \<in> set xs" by simp
    from Cons.IH [OF this] show ?thesis by simp
  qed
qed

lemma new_oid_fresh: "a \<in> set xs \<Longrightarrow> attempt_id a \<noteq> new_oid xs"
  using new_oid_fresh_aux [of a xs 0] by (simp add: new_oid_def)

lemma find_append_None: "find P xs = None \<Longrightarrow> find P (xs @ ys) = find P ys"
  by (induction xs) (auto split: if_splits)

lemma findById_new:
  "attempt_id n = new_oid xs \<Longrightarrow> findById (new_oid xs) (xs @ [n]) = Some n"
proof -
  assume n: "attempt_id n = new_oid xs"
  have "find (\<lambda>a. attempt_id a = new_oid xs) xs = None"
    using new_oid_fresh [of _ xs] by (auto simp: find_None_iff)
  then show ?thesis
    using n by (simp add: findById_def find_append_None)
qed

lemma terminal_iff: "terminal s \<longleftrightarrow> s \<noteq> In_progress"
  by (cases s) (simp_all add: terminal_def)

lemma count_without_in_progress:
  assumes "find (\<lambda>a. student a = uid \<and> quiz a = qi \<and> status a = In_progress) xs = None"
  shows "filter (\<lambda>a. student a = uid \<and> quiz a = qi \<and> terminal (status a)) xs
       = filter (\<lambda>a. student a = uid \<and> quiz a = qi) xs"
  using assms by (auto simp: find_None_iff terminal_iff intro!: filter_cong)

lemma pair_count_keys:
  "length (filter (\<lambda>(i', s', q', n'). s' = s \<and> q' = q) (map attempt_key xs))
     = length (filter (\<lambda>a. student a = s \<and> quiz a = q) xs)"
  by (induction xs) (simp_all add: attempt_key_def)

lemma numbered_bound:
  assumes ok: "store_ok d" and x: "x \<in> set (attempts d)"
  shows "attemptNumber x \<le> int (length (filter (\<lambda>a. student a = student x \<and> quiz a = quiz x) (attempts d)))"
proof -
  have "attempt_key x \<in> set (map attempt_key (attempts d))"
    using x by simp
  with ok have "attemptNumber x \<le> int (length (filter (\<lambda>(i', s', q', n'). s' = student x \<and> q' = quiz x)
      (map attempt_key (attempts d))))"
    unfolding store_ok_def numbered_def attempt_key_def by fastforce
  then show ?thesis unfolding pair_count_keys .
qed

lemma start_POST_admitted:
  assumes u: "users d uid = Some u" "role u = Student"
      and q: "quizzes d qi = Some q" "quiz_status q = Published"
      and due: "case dueDate q of None \<Rightarrow> True | Some due \<Rightarrow> now \<le> due"
      and lim: "getStudentAttemptCount uid qi d < maxAttempts q"
  shows "start_POST now cl (Token uid) qi d =
     (case find (\<lambda>a. student a = uid \<and> quiz a = qi \<and> status a = In_progress) (attempts d) of
        Some existingAttempt \<Rightarrow> ((200, Started (Some existingAttempt)), d)
      | None \<Rightarrow>
          (case save_new_attempt now (new_attempt now cl uid qi q d) d of
             Inl e \<Rightarrow> caught ''Start quiz attempt error:'' ''Failed to start quiz attempt'' e d
           | Inr (saved, d') \<Rightarrow> ((201, Started (findById (attempt_id saved) (attempts d'))), d')))"
proof -
  have due': "\<not> (case dueDate q of None \<Rightarrow> False | Some due \<Rightarrow> now > due)"
    using due by (simp split: option.splits)
  show ?thesis
    using u q due' lim
    by (simp add: start_POST_def Let_def new_attempt_def split: option.splits)
qed

lemma js_round_zero [simp]: "js_round 0 = 0"
  unfolding js_round_def by (rule floor_unique) simp_all

lemma new_attempt_pre_save:
  "attempt_pre_save now (new_attempt now cl uid qi q d) = new_attempt now cl uid qi q d"
  by (simp add: attempt_pre_save_def new_attempt_def Let_def)

lemma new_attempt_valid:
  "1 \<le> totalPoints q \<Longrightarrow> validate_attempt (new_attempt now cl uid qi q d)"
  by (simp add: validate_attempt_def new_attempt_def getStudentAttemptCount_def)

lemma new_attempt_number_free:
  assumes ok: "store_ok d"
      and none: "find (\<lambda>a. student a = uid \<and> quiz a = qi \<and> status a = In_progress) (attempts d) = None"
      and x: "x \<in> set (attempts d)" "student x = uid" "quiz x = qi"
  shows "attemptNumber x \<noteq> getStudentAttemptCount uid qi d + 1"
proof -
  have "attemptNumber x \<le> int (length (filter (\<lambda>a. student a = uid \<and> quiz a = qi) (attempts d)))"
    using numbered_bound [OF ok x(1)] x(2,3) by simp
  also have "\<dots> = getStudentAttemptCount uid qi d"
    by (simp add: getStudentAttemptCount_def count_without_in_progress [OF none])
  finally show ?thesis by simp
qed

text \<open>
  The admission of a start request. A student starts an attempt on a published quiz whose
  due date has not passed, below the attempt limit, in a well-numbered store whose quiz
  satisfies its schema (\<open>totalPoints\<close> at least 1). If an in-progress attempt of the pair
  exists, it is returned with 200 and the store is unchanged. Otherwise, when the client
  address and the user agent of the request fit the schema's limits of 45 and 500
  characters, the answer is 201 and the store gains exactly one attempt, appended: numbered
  the count of terminal attempts plus 1, with \<open>maxScore\<close> the quiz's \<open>totalPoints\<close> of that
  moment, in progress, without responses and with score 0. When one of the two strings is
  longer, the save is rejected by the validators: the answer is 500 and no attempt is
  created.
\<close>

lemma start_or_resume:
  assumes u: "users d uid = Some u" "role u = Student"
      and q: "quizzes d qi = Some q" "quiz_status q = Published"
      and due: "case dueDate q of None \<Rightarrow> True | Some due \<Rightarrow> now \<le> due"
      and lim: "getStudentAttemptCount uid qi d < maxAttempts q"
      and ok: "store_ok d" and tp: "1 \<le> totalPoints q"
  shows "(\<forall>e. find (\<lambda>a. student a = uid \<and> quiz a = qi \<and> status a = In_progress) (attempts d) = Some e \<longrightarrow>
            start_POST now cl (Token uid) qi d = ((200, Started (Some e)), d))
       \<and> (find (\<lambda>a. student a = uid \<and> quiz a = qi \<and> status a = In_progress) (attempts d) = None
            \<and> client_fits cl \<longrightarrow>
            start_POST now cl (Token uid) qi d
              = ((201, Started (Some (new_attempt now cl uid qi q d))),
                 d\<lparr>attempts := attempts d @ [new_attempt now cl uid qi q d]\<rparr>)
          \<and> attemptNumber (new_attempt now cl uid qi q d) = getStudentAttemptCount uid qi d + 1
          \<and> maxScore (new_attempt now cl uid qi q d) = totalPoints q
          \<and> status (new_attempt now cl uid qi q d) = In_progress
          \<and> responses (new_attempt now cl uid qi q d) = []
          \<and> score (new_attempt now cl uid qi q d) = 0)
       \<and> (find (\<lambda>a. student a = uid \<and> quiz a = qi \<and> status a = In_progress) (attempts d) = None
            \<and> \<not> client_fits cl \<longrightarrow>
            fst (start_POST now cl (Token uid) qi d) = (500, Error ''Failed to start quiz attempt'')
          \<and> attempts (snd (start_POST now cl (Token uid) qi d)) = attempts d)"
proof (intro conjI allI impI)
  fix e
  assume "find (\<lambda>a. student a = uid \<and> quiz a = qi \<and> status a = In_progress) (attempts d) = Some e"
  then show "start_POST now cl (Token uid) qi d = ((200, Started (Some e)), d)"
    unfolding start_POST_admitted [OF u q due lim] by simp
next
  assume a: "find (\<lambda>a. student a = uid \<and> quiz a = qi \<and> status a = In_progress) (attempts d) = None
            \<and> client_fits cl"
  then have none: "find (\<lambda>a. student a = uid \<and> quiz a = qi \<and> status a = In_progress) (attempts d) = None"
    and fits: "client_fits cl"
    by simp_all
  let ?n = "new_attempt now cl uid qi q d"
  have keys: "student ?n = uid" "quiz ?n = qi" "attempt_id ?n = new_oid (attempts d)"
    "attemptNumber ?n = getStudentAttemptCount uid qi d + 1"
    by (simp_all add: new_attempt_def)
  have free: "\<not> (\<exists>x \<in> set (attempts d). student x = student ?n \<and> quiz x = quiz ?n
      \<and> attemptNumber x = attemptNumber ?n)"
    using new_attempt_number_free [OF ok none] keys by auto
  have vc: "validate_client_paths ?n"
    using fits by (simp add: validate_client_paths_def client_fits_def new_attempt_def)
  have s: "save_new_attempt now ?n d = Inr (?n, d\<lparr>attempts := attempts d @ [?n]\<rparr>)"
    using free vc new_attempt_valid [OF tp, of now cl uid qi d]
    by (simp add: save_new_attempt_def Let_def new_attempt_pre_save)
  show "start_POST now cl (Token uid) qi d
              = ((201, Started (Some ?n)), d\<lparr>attempts := attempts d @ [?n]\<rparr>)"
    unfolding start_POST_admitted [OF u q due lim]
    using none s findById_new [OF keys(3)] keys(3) by simp
next
  assume a: "find (\<lambda>a. student a = uid \<and> quiz a = qi \<and> status a = In_progress) (attempts d) = None
            \<and> \<not> client_fits cl"
  then have none: "find (\<lambda>a. student a = uid \<and> quiz a = qi \<and> status a = In_progress) (attempts d) = None"
    and long: "\<not> client_fits cl"
    by simp_all
  let ?n = "new_attempt now cl uid qi q d"
  have vc: "\<not> validate_client_paths ?n"
    using long by (simp add: validate_client_paths_def client_fits_def new_attempt_def)
  have s: "save_new_attempt now ?n d = Inl ValidationError"
    using vc by (simp add: save_new_attempt_def)
  show "fst (start_POST now cl (Token uid) qi d) = (500, Error ''Failed to start quiz attempt'')"
    "attempts (snd (start_POST now cl (Token uid) qi d)) = attempts d"
    unfolding start_POST_admitted [OF u q due lim]
    using none s by (simp_all add: caught_def)
qed (simp_all add: new_attempt_def)

lemma start_or_resume_example:
  "users demo_db 1 = Some \<lparr> role = Student \<rparr> \<and> users demo_db 2 = Some \<lparr> role = Student \<rparr>
   \<and> role \<lparr> role = Student \<rparr> = Student
   \<and> quizzes demo_db 10 = Some demo_quiz \<and> quiz_status demo_quiz = Published
   \<and> (case dueDate demo_quiz of None \<Rightarrow> True | Some due \<Rightarrow> 60 \<le> due)
   \<and> getStudentAttemptCount 1 10 demo_db < maxAttempts demo_quiz
   \<and> getStudentAttemptCount 2 10 demo_db < maxAttempts demo_quiz
   \<and> store_ok demo_db \<and> 1 \<le> totalPoints demo_quiz \<and> client_fits no_headers
   \<and> start_POST 60 no_headers (Token 1) 10 demo_db = ((200, Started (Some demo_attempt)), demo_db)
   \<and> start_POST 60 no_headers (Token 2) 10 demo_db
        = ((201, Started (Some (new_attempt 60 no_headers 2 10 demo_quiz demo_db))),
           demo_db\<lparr>attempts := attempts demo_db @ [new_attempt 60 no_headers 2 10 demo_quiz demo_db]\<rparr>)
   \<and> attemptNumber (new_attempt 60 no_headers 2 10 demo_quiz demo_db) = 1"
proof -
  have u1: "users demo_db 1 = Some \<lparr> role = Student \<rparr>" and u2: "users demo_db 2 = Some \<lparr> role = Student \<rparr>"
    and r: "role \<lparr> role = Student \<rparr> = Student"
    by (simp_all add: demo_db_def)
  have q: "quizzes demo_db 10 = Some demo_quiz" "quiz_status demo_quiz = Published"
    by (simp_all add: demo_db_def demo_quiz_def)
  have due: "case dueDate demo_quiz of None \<Rightarrow> True | Some due \<Rightarrow> 60 \<le> due"
    by (simp add: demo_quiz_def)
  have c1: "getStudentAttemptCount 1 10 demo_db = 0" and c2: "getStudentAttemptCount 2 10 demo_db = 0"
    by (simp_all add: getStudentAttemptCount_def demo_db_def demo_attempt_def terminal_def)
  have m: "maxAttempts demo_quiz = 3" and tp: "1 \<le> totalPoints demo_quiz"
    by (simp_all add: demo_quiz_def)
  have l1: "getStudentAttemptCount 1 10 demo_db < maxAttempts demo_quiz"
    and l2: "getStudentAttemptCount 2 10 demo_db < maxAttempts demo_quiz"
    using c1 c2 m by simp_all
  have ok: "store_ok demo_db"
    by (simp add: store_ok_def numbered_def attempt_key_def demo_db_def demo_attempt_def)
  have f1: "find (\<lambda>a. student a = 1 \<and> quiz a = 10 \<and> status a = In_progress) (attempts demo_db)
      = Some demo_attempt"
    by (simp add: demo_db_def demo_attempt_def)
  have f2: "find (\<lambda>a. student a = 2 \<and> quiz a = 10 \<and> status a = In_progress) (attempts demo_db) = None"
    by (simp add: demo_db_def demo_attempt_def)
  from start_or_resume [OF u1 r q due l1 ok tp] f1
  have first: "start_POST 60 no_headers (Token 1) 10 demo_db = ((200, Started (Some demo_attempt)), demo_db)"
    by blast
  have fits: "client_fits no_headers"
    by (simp add: client_fits_def no_headers_def js_or_def)
  from start_or_resume [OF u2 r q due l2 ok tp] f2 c2 fits
  have second: "start_POST 60 no_headers (Token 2) 10 demo_db
        = ((201, Started (Some (new_attempt 60 no_headers 2 10 demo_quiz demo_db))),
           demo_db\<lparr>attempts := attempts demo_db @ [new_attempt 60 no_headers 2 10 demo_quiz demo_db]\<rparr>)
   \<and> attemptNumber (new_attempt 60 no_headers 2 10 demo_quiz demo_db) = 1"
    by simp
  from first second u1 u2 r q due l1 l2 ok tp fits show ?thesis
    by blast
qed

text \<open>
  Claim C2 at a failing input. Student 2 is admitted on quiz 10 (published, no due date, no
  attempt used of three, none in progress), so one attempt should be created. The request
  carries a \<open>user-agent\<close> header of 501 characters, which the handler stores unchanged in
  a path that the schema limits to 500: the save throws, the answer is 500 and the store
  has the one attempt it had.
\<close>

theorem start_fails_on_long_user_agent:
  "users demo_db 2 = Some \<lparr> role = Student \<rparr>
   \<and> map_option quiz_status (quizzes demo_db 10) = Some Published
   \<and> map_option dueDate (quizzes demo_db 10) = Some None
   \<and> map_option maxAttempts (quizzes demo_db 10) = Some 3
   \<and> getStudentAttemptCount 2 10 demo_db = 0
   \<and> map student (attempts demo_db) = [1]
   \<and> map_option length (user_agent long_agent) = Some 501
   \<and> fst (start_POST 60 long_agent (Token 2) 10 demo_db) = (500, Error ''Failed to start quiz attempt'')
   \<and> attempts (snd (start_POST 60 long_agent (Token 2) 10 demo_db)) = attempts demo_db"
proof -
  have x1: "users demo_db 2 = Some \<lparr> role = Student \<rparr>"
    by (simp add: demo_db_def)
  have x2: "map_option quiz_status (quizzes demo_db 10) = Some Published"
    "map_option dueDate (quizzes demo_db 10) = Some None"
    "map_option maxAttempts (quizzes demo_db 10) = Some 3"
    by (simp_all add: demo_db_def demo_quiz_def)
  have x3: "getStudentAttemptCount 2 10 demo_db = 0" "map student (attempts demo_db) = [1]"
    by (simp_all add: getStudentAttemptCount_def demo_db_def demo_attempt_def)
  have x4: "map_option length (user_agent long_agent) = Some 501"
    by (simp add: long_agent_def)
  have x5: "fst (start_POST 60 long_agent (Token 2) 10 demo_db) = (500, Error ''Failed to start quiz attempt'')"
    by code_simp
  have x6: "attempts (snd (start_POST 60 long_agent (Token 2) 10 demo_db)) = attempts demo_db"
    by code_simp
  from x1 x2 x3 x4 x5 x6 show ?thesis
    by simp
qed

text \<open>The handlers keep the store well numbered.\<close>

lemma start_POST_attempts_new:
  "attempts (snd (start_POST now cl cred qi d)) = attempts d
   \<or> (\<exists>uid q. attempts (snd (start_POST now cl cred qi d)) = attempts d @ [new_attempt now cl uid qi q d])"
proof (cases cred)
  case NoToken
  then show ?thesis by (simp add: start_POST_def)
next
  case BadToken
  then show ?thesis by (simp add: start_POST_def)
next
  case (Token uid)
  show ?thesis
  proof (cases "users d uid")
    case None
    with Token show ?thesis by (simp add: start_POST_def)
  next
    case u: (Some u)
    show ?thesis
    proof (cases "quizzes d qi")
      case None
      with Token u show ?thesis by (simp add: start_POST_def)
    next
      case q: (Some q)
      show ?thesis
      proof (cases "role u = Student \<and> quiz_status q = Published
          \<and> (case dueDate q of None \<Rightarrow> True | Some due \<Rightarrow> now \<le> due)
          \<and> getStudentAttemptCount uid qi d < maxAttempts q")
        case True
        then have c: "role u = Student" "quiz_status q = Published"
          "case dueDate q of None \<Rightarrow> True | Some due \<Rightarrow> now \<le> due"
          "getStudentAttemptCount uid qi d < maxAttempts q"
          by simp_all
        have "attempts (snd (start_POST now cl cred qi d)) = attempts d
          \<or> attempts (snd (start_POST now cl cred qi d)) = attempts d @ [new_attempt now cl uid qi q d]"
          unfolding Token start_POST_admitted [OF u c(1) q c(2,3,4)]
          by (simp add: save_new_attempt_def Let_def new_attempt_pre_save split: option.splits)
        then show ?thesis by blast
      next
        case False
        then have "attempts (snd (start_POST now cl cred qi d)) = attempts d"
          using Token u q
          by (auto simp: start_POST_def Let_def not_less split: option.splits)
        then show ?thesis by simp
      qed
    qed
  qed
qed

lemma numbered_append:
  assumes ok: "numbered (map attempt_key xs)"
      and fresh: "attempt_id n = new_oid xs"
      and num: "attemptNumber n \<le> int (length (filter (\<lambda>a. student a = student n \<and> quiz a = quiz n) xs)) + 1"
  shows "numbered (map attempt_key (xs @ [n]))"
proof -
  have "\<forall>a \<in> set xs. attempt_id a \<noteq> attempt_id n"
    using fresh new_oid_fresh by metis
  then have d: "distinct (map fst (map attempt_key (xs @ [n])))"
    using ok by (auto simp: numbered_def attempt_key_def comp_def)
  have b: "attemptNumber x \<le> int (length (filter (\<lambda>a. student a = student x \<and> quiz a = quiz x) (xs @ [n])))"
    if "x \<in> set (xs @ [n])" for x
  proof (cases "x \<in> set xs")
    case True
    then have "attempt_key x \<in> set (map attempt_key xs)" by simp
    with ok have "attemptNumber x \<le> int (length (filter (\<lambda>(i', s', q', n'). s' = student x \<and> q' = quiz x)
        (map attempt_key xs)))"
      unfolding numbered_def attempt_key_def by fastforce
    then have "attemptNumber x \<le> int (length (filter (\<lambda>a. student a = student x \<and> quiz a = quiz x) xs))"
      unfolding pair_count_keys .
    then show ?thesis by simp
  next
    case False
    with that have "x = n" by simp
    with num show ?thesis by simp
  qed
  have "\<forall>k \<in> set (map attempt_key (xs @ [n])).
          case k of (i, s, q, m) \<Rightarrow>
            m \<le> int (length (filter (\<lambda>(i', s', q', n'). s' = s \<and> q' = q) (map attempt_key (xs @ [n]))))"
  proof
    fix k assume "k \<in> set (map attempt_key (xs @ [n]))"
    then obtain x where x: "x \<in> set (xs @ [n])" "k = attempt_key x" by auto
    from b [OF x(1)] show "case k of (i, s, q, m) \<Rightarrow>
            m \<le> int (length (filter (\<lambda>(i', s', q', n'). s' = s \<and> q' = q) (map attempt_key (xs @ [n]))))"
      unfolding pair_count_keys x(2) by (simp add: attempt_key_def pair_count_keys)
  qed
  with d show ?thesis unfolding numbered_def by blast
qed

lemma keys_after_update:
  assumes d: "distinct (map attempt_id xs)"
      and a0: "findById i xs = Some a0"
      and k: "attempt_key a1 = attempt_key a0"
  shows "map attempt_key (map (\<lambda>x. if attempt_id x = i then a1 else x) xs) = map attempt_key xs"
proof -
  have "attempt_key (if attempt_id x = i then a1 else x) = attempt_key x" if x: "x \<in> set xs" for x
  proof (cases "attempt_id x = i")
    case True
    have "a0 \<in> set xs" "attempt_id a0 = i"
      using findById_SomeD [OF a0] by simp_all
    with d x True have "x = a0"
      by (auto simp: distinct_map dest: inj_onD)
    with k True show ?thesis by simp
  next
    case False
    then show ?thesis by simp
  qed
  then show ?thesis by simp
qed

lemma store_ok_update:
  assumes ok: "store_ok d"
      and a0: "findById i (attempts d) = Some a0"
      and k: "attempt_id a1 = i" "student a1 = student a0" "quiz a1 = quiz a0"
             "attemptNumber a1 = attemptNumber a0"
      and at: "attempts d' = map (\<lambda>x. if attempt_id x = i then a1 else x) (attempts d)"
  shows "store_ok d'"
proof -
  have dist: "distinct (map attempt_id (attempts d))"
    using ok by (simp add: store_ok_def numbered_def attempt_key_def comp_def)
  have key: "attempt_key a1 = attempt_key a0"
    using k findById_SomeD [OF a0] by (simp add: attempt_key_def)
  show ?thesis
    using ok unfolding store_ok_def at keys_after_update [OF dist a0 key] .
qed

lemma terminal_count_le:
  "length (filter (\<lambda>a. student a = uid \<and> quiz a = qi \<and> terminal (status a)) xs)
     \<le> length (filter (\<lambda>a. student a = uid \<and> quiz a = qi) xs)"
  by (induction xs) (simp_all add: le_SucI)

lemma store_ok_handle:
  assumes ok: "store_ok d"
  shows "store_ok (snd (handle r d))"
proof (cases r)
  case (StartAttempt now cl cred qi)
  from start_POST_attempts_new [of now cl cred qi d] show ?thesis
  proof
    assume "attempts (snd (start_POST now cl cred qi d)) = attempts d"
    with ok StartAttempt show ?thesis by (simp add: store_ok_def)
  next
    assume "\<exists>uid q. attempts (snd (start_POST now cl cred qi d)) = attempts d @ [new_attempt now cl uid qi q d]"
    then obtain uid q where
      n: "attempts (snd (start_POST now cl cred qi d)) = attempts d @ [new_attempt now cl uid qi q d]"
      by blast
    have "length (filter (\<lambda>a. student a = uid \<and> quiz a = qi \<and> terminal (status a)) (attempts d))
        \<le> length (filter (\<lambda>a. student a = uid \<and> quiz a = qi) (attempts d))"
      by (rule terminal_count_le)
    then have "attemptNumber (new_attempt now cl uid qi q d)
        \<le> int (length (filter (\<lambda>a. student a = student (new_attempt now cl uid qi q d)
                                    \<and> quiz a = quiz (new_attempt now cl uid qi q d)) (attempts d))) + 1"
      by (simp add: new_attempt_def getStudentAttemptCount_def)
    from numbered_append [OF ok [unfolded store_ok_def] _ this]
    show ?thesis
      using StartAttempt n by (simp add: store_ok_def new_attempt_def)
  qed
next
  case (SubmitAttempt now sf cred j b)
  from submit_POST_attempts [of now sf cred j b d] show ?thesis
  proof
    assume "attempts (snd (submit_POST now sf cred j b d)) = attempts d"
    with ok SubmitAttempt show ?thesis by (simp add: store_ok_def)
  next
    assume "\<exists>a0 a1. findById j (attempts d) = Some a0 \<and> status a0 = In_progress \<and> attempt_id a1 = j
         \<and> student a1 = student a0 \<and> quiz a1 = quiz a0 \<and> attemptNumber a1 = attemptNumber a0
         \<and> attempts (snd (submit_POST now sf cred j b d))
             = map (\<lambda>x. if attempt_id x = j then a1 else x) (attempts d)"
    then obtain a0 a1 where h: "findById j (attempts d) = Some a0" "attempt_id a1 = j"
      "student a1 = student a0" "quiz a1 = quiz a0" "attemptNumber a1 = attemptNumber a0"
      "attempts (snd (submit_POST now sf cred j b d)) = map (\<lambda>x. if attempt_id x = j then a1 else x) (attempts d)"
      by blast
    from store_ok_update [OF ok h] SubmitAttempt show ?thesis by simp
  qed
next
  case (SaveProgress now cred j b)
  from submit_PATCH_attempts [of now cred j b d] show ?thesis
  proof
    assume "attempts (snd (submit_PATCH now cred j b d)) = attempts d"
    with ok SaveProgress show ?thesis by (simp add: store_ok_def)
  next
    assume "\<exists>a0 a1. findById j (attempts d) = Some a0 \<and> status a0 = In_progress \<and> attempt_id a1 = j
         \<and> student a1 = student a0 \<and> quiz a1 = quiz a0 \<and> attemptNumber a1 = attemptNumber a0
         \<and> attempts (snd (submit_PATCH now cred j b d))
             = map (\<lambda>x. if attempt_id x = j then a1 else x) (attempts d)"
    then obtain a0 a1 where h: "findById j (attempts d) = Some a0" "attempt_id a1 = j"
      "student a1 = student a0" "quiz a1 = quiz a0" "attemptNumber a1 = attemptNumber a0"
      "attempts (snd (submit_PATCH now cred j b d)) = map (\<lambda>x. if attempt_id x = j then a1 else x) (attempts d)"
      by blast
    from store_ok_update [OF ok h] SaveProgress show ?thesis by simp
  qed
next
  case (DeleteQuiz now gen cred qi)
  with ok show ?thesis by (simp add: store_ok_def quiz_DELETE_attempts)
qed

lemma store_ok_serve: "store_ok d \<Longrightarrow> store_ok (serve rs d)"
  by (induction rs arbitrary: d) (simp_all add: store_ok_handle)

subsection \<open>The two analytics modes\<close>


text \<open>The example of the specification: 80 percent in 10 minutes, then 60 percent in 20
  minutes.\<close>

lemma spec_example_running_analytics:
  "running_analytics [scored 100 1 80 10, scored 101 2 60 20]
     = \<lparr> totalAttempts = 2, averageScore = 70, completionRate = 100, averageTimeMinutes = 15 \<rparr>"
  by code_simp








subsection \<open>Completion dates\<close>

text \<open>An attempt in progress has no completion date: the start handler creates it without
  one, the progress save keeps it, and the submit handler sets it together with the status.\<close>

lemma submit_POST_attempts_completed:
  "attempts (snd (submit_POST now sf cred i b d)) = attempts d
   \<or> (\<exists>a1. status a1 = Completed
         \<and> attempts (snd (submit_POST now sf cred i b d))
             = map (\<lambda>x. if attempt_id x = i then a1 else x) (attempts d))"
proof (cases "\<exists>uid u a rs q. cred = Token uid \<and> users d uid = Some u \<and> role u = Student
      \<and> findById i (attempts d) = Some a \<and> student a = uid \<and> status a = In_progress
      \<and> body_responses b = Array rs \<and> quizzes d (quiz a) = Some q")
  case True
  then obtain uid u a rs q where c: "cred = Token uid" "users d uid = Some u" "role u = Student"
    "findById i (attempts d) = Some a" "student a = uid" "status a = In_progress"
    "body_responses b = Array rs" "quizzes d (quiz a) = Some q"
    by blast
  let ?ga = "graded_attempt now q rs (body_timeSpentMinutes b) a"
  let ?d1 = "d\<lparr>attempts := map (\<lambda>x. if attempt_id x = i then attempt_pre_save now ?ga else x) (attempts d)\<rparr>"
  have ida: "attempt_id a = i"
    using findById_SomeD [OF c(4)] by simp
  have st: "status (attempt_pre_save now ?ga) = Completed"
    by (simp add: attempt_pre_save_def graded_attempt_def Let_def)
  have "attempts (snd (submit_POST now sf cred i b d)) = attempts d
     \<or> attempts (snd (submit_POST now sf cred i b d)) = attempts ?d1"
  proof (cases "validate_attempt ?ga")
    case False
    then show ?thesis
      unfolding c(1) submit_POST_owner [OF c(2,3,4,5,6,7,8)]
      by (simp add: Let_def save_attempt_eq)
  next
    case v: True
    show ?thesis
    proof (cases "updateAnalytics sf (quiz a) (percentage ?ga) (timeSpentMinutes ?ga) True ?d1")
      case (Inl e)
      then show ?thesis
        unfolding c(1) submit_POST_owner [OF c(2,3,4,5,6,7,8)]
        using v ida by (simp add: Let_def save_attempt_eq)
    next
      case (Inr d2)
      from updateAnalytics_attempts [OF Inr] Inr show ?thesis
        unfolding c(1) submit_POST_owner [OF c(2,3,4,5,6,7,8)]
        using v ida by (simp add: Let_def save_attempt_eq)
    qed
  qed
  with st show ?thesis by auto
next
  case False
  then have "attempts (snd (submit_POST now sf cred i b d)) = attempts d"
    by (cases cred; cases "body_responses b")
       (auto simp: submit_POST_def split: option.splits)
  then show ?thesis by simp
qed

lemma submit_PATCH_attempts_open:
  "attempts (snd (submit_PATCH now cred i b d)) = attempts d
   \<or> (\<exists>a0 a1. findById i (attempts d) = Some a0 \<and> status a0 = In_progress
         \<and> completedAt a1 = completedAt a0
         \<and> attempts (snd (submit_PATCH now cred i b d))
             = map (\<lambda>x. if attempt_id x = i then a1 else x) (attempts d))"
proof (cases "\<exists>uid u a. cred = Token uid \<and> users d uid = Some u
      \<and> findById i (attempts d) = Some a \<and> student a = uid \<and> status a = In_progress
      \<and> body_responses b \<noteq> NotArray")
  case True
  then obtain uid u a where c: "cred = Token uid" "users d uid = Some u"
    "findById i (attempts d) = Some a" "student a = uid" "status a = In_progress"
    "body_responses b \<noteq> NotArray"
    by blast
  let ?p = "attempt_pre_save now (progress_attempt b a)"
  have ida: "attempt_id a = i"
    using findById_SomeD [OF c(3)] by simp
  have keep: "completedAt ?p = completedAt a"
    using c(5) by (simp add: attempt_pre_save_def Let_def progress_attempt_def
        split: responses_field.splits option.splits)
  show ?thesis
  proof (cases "validate_attempt (progress_attempt b a)")
    case False
    then show ?thesis
      unfolding c(1) submit_PATCH_owner [OF c(2,3,4,5,6)]
      by (simp add: save_attempt_eq)
  next
    case v: True
    have "findById i (attempts d) = Some a \<and> status a = In_progress
         \<and> completedAt ?p = completedAt a
         \<and> attempts (snd (submit_PATCH now cred i b d))
             = map (\<lambda>x. if attempt_id x = i then ?p else x) (attempts d)"
      unfolding c(1) submit_PATCH_owner [OF c(2,3,4,5,6)]
      using v ida c(3,5) keep by (simp add: save_attempt_eq)
    then show ?thesis by blast
  qed
next
  case False
  then have "attempts (snd (submit_PATCH now cred i b d)) = attempts d"
    by (cases cred; cases "body_responses b")
       (auto simp: submit_PATCH_def split: option.splits)
  then show ?thesis by simp
qed

lemma no_early_completion_handle:
  assumes inv: "no_early_completion d"
  shows "no_early_completion (snd (handle r d))"
proof (cases r)
  case (StartAttempt now cl cred qi)
  from start_POST_attempts_new [of now cl cred qi d] show ?thesis
  proof
    assume "attempts (snd (start_POST now cl cred qi d)) = attempts d"
    with inv StartAttempt show ?thesis by (simp add: no_early_completion_def)
  next
    assume "\<exists>uid q. attempts (snd (start_POST now cl cred qi d)) = attempts d @ [new_attempt now cl uid qi q d]"
    then obtain uid q where
      "attempts (snd (start_POST now cl cred qi d)) = attempts d @ [new_attempt now cl uid qi q d]"
      by blast
    with inv StartAttempt show ?thesis
      by (auto simp: no_early_completion_def new_attempt_def)
  qed
next
  case (SubmitAttempt now sf cred j b)
  from submit_POST_attempts_completed [of now sf cred j b d] show ?thesis
  proof
    assume "attempts (snd (submit_POST now sf cred j b d)) = attempts d"
    with inv SubmitAttempt show ?thesis by (simp add: no_early_completion_def)
  next
    assume "\<exists>a1. status a1 = Completed
         \<and> attempts (snd (submit_POST now sf cred j b d))
             = map (\<lambda>x. if attempt_id x = j then a1 else x) (attempts d)"
    then obtain a1 where "status a1 = Completed"
      "attempts (snd (submit_POST now sf cred j b d)) = map (\<lambda>x. if attempt_id x = j then a1 else x) (attempts d)"
      by blast
    with inv SubmitAttempt show ?thesis
      by (auto simp: no_early_completion_def)
  qed
next
  case (SaveProgress now cred j b)
  from submit_PATCH_attempts_open [of now cred j b d] show ?thesis
  proof
    assume "attempts (snd (submit_PATCH now cred j b d)) = attempts d"
    with inv SaveProgress show ?thesis by (simp add: no_early_completion_def)
  next
    assume "\<exists>a0 a1. findById j (attempts d) = Some a0 \<and> status a0 = In_progress
         \<and> completedAt a1 = completedAt a0
         \<and> attempts (snd (submit_PATCH now cred j b d))
             = map (\<lambda>x. if attempt_id x = j then a1 else x) (attempts d)"
    then obtain a0 a1 where h: "findById j (attempts d) = Some a0" "status a0 = In_progress"
      "completedAt a1 = completedAt a0"
      "attempts (snd (submit_PATCH now cred j b d)) = map (\<lambda>x. if attempt_id x = j then a1 else x) (attempts d)"
      by blast
    have "completedAt a0 = None"
      using inv findById_SomeD [OF h(1)] h(2) by (auto simp: no_early_completion_def)
    with inv SaveProgress h(3,4) show ?thesis
      by (auto simp: no_early_completion_def)
  qed
next
  case (DeleteQuiz now gen cred qi)
  with inv show ?thesis by (simp add: no_early_completion_def quiz_DELETE_attempts)
qed

lemma no_early_completion_serve: "no_early_completion d \<Longrightarrow> no_early_completion (serve rs d)"
  by (induction rs arbitrary: d) (simp_all add: no_early_completion_handle)

end
